theory Spec2Isabelle
  imports Main
begin

section \<open>Text and characters\<close>

text \<open>
  The tool reads every file as text and works on JavaScript strings. A string is modelled
  as a \<^typ>\<open>string\<close>: one \<^typ>\<open>char\<close> per code unit, which covers the texts whose code
  units are below 256. Numbers are natural numbers (the tool only counts and adds).
\<close>

definition code :: "char \<Rightarrow> nat" where
  "code c = of_char c"

definition isDigit :: "char \<Rightarrow> bool" where
  "isDigit c = (48 \<le> code c \<and> code c \<le> 57)"

definition isUpper :: "char \<Rightarrow> bool" where
  "isUpper c = (65 \<le> code c \<and> code c \<le> 90)"

definition isLower :: "char \<Rightarrow> bool" where
  "isLower c = (97 \<le> code c \<and> code c \<le> 122)"

definition isWordChar :: "char \<Rightarrow> bool" where
  \<comment> \<open>the class \<open>\w\<close>: letters, digits and the underscore\<close>
  "isWordChar c = (isLower c \<or> isUpper c \<or> isDigit c \<or> c = CHR ''_'')"

definition isSpace :: "char \<Rightarrow> bool" where
  \<comment> \<open>the class \<open>\s\<close> below code unit 256: tab, line feed, vertical tab, form feed,
      carriage return, space, no-break space\<close>
  "isSpace c = ((9 \<le> code c \<and> code c \<le> 13) \<or> code c = 32 \<or> code c = 160)"

definition isLineTerminator :: "char \<Rightarrow> bool" where
  "isLineTerminator c = (code c = 10 \<or> code c = 13)"

definition backslash :: char where
  "backslash = CHR 0x5C"

definition quoteChars :: string where
  \<comment> \<open>single quote, double quote, backtick\<close>
  "quoteChars = [CHR 0x27, CHR 0x22, CHR 0x60]"

fun startsWith :: "string \<Rightarrow> string \<Rightarrow> bool" where
  "startsWith s [] = True"
| "startsWith [] (p # ps) = False"
| "startsWith (c # cs) (p # ps) = (c = p \<and> startsWith cs ps)"

fun str_includes :: "string \<Rightarrow> string \<Rightarrow> bool" where
  "str_includes [] p = (p = [])"
| "str_includes (c # cs) p = (startsWith (c # cs) p \<or> str_includes cs p)"

section \<open>Regular expressions\<close>

text \<open>
  The fragment of JavaScript regular expressions that the tool uses, with the
  backtracking semantics of the language: alternatives are tried from left to right, a
  greedy star tries one more iteration before it tries to go on, a lazy star the other
  way round, and an iteration that matches the empty string is rejected.
\<close>

datatype regex =
    Eps
  | Chr "char \<Rightarrow> bool"
  | WordB
  | EndA
  | Cat regex regex
  | Or regex regex
  | Star regex
  | LazyStar regex
  | Grp regex

text \<open>
  A position in the subject: its index, the character before it, the text from it on, and
  the span of the capture group once it has been closed.
\<close>

record mstate =
  pos :: nat
  prev :: "char option"
  rest :: string
  cap :: "(nat \<times> nat) option"

type_synonym cont = "mstate \<Rightarrow> mstate option"

definition wordBefore :: "mstate \<Rightarrow> bool" where
  "wordBefore s = (case prev s of None \<Rightarrow> False | Some c \<Rightarrow> isWordChar c)"

definition wordAfter :: "mstate \<Rightarrow> bool" where
  "wordAfter s = (case rest s of [] \<Rightarrow> False | c # _ \<Rightarrow> isWordChar c)"

primrec greedy :: "(cont \<Rightarrow> cont) \<Rightarrow> nat \<Rightarrow> cont \<Rightarrow> cont" where
  "greedy body 0 k s = k s"
| "greedy body (Suc n) k s =
     (case body (\<lambda>s'. if pos s' = pos s then None else greedy body n k s') s of
        Some r \<Rightarrow> Some r
      | None \<Rightarrow> k s)"

primrec lazy :: "(cont \<Rightarrow> cont) \<Rightarrow> nat \<Rightarrow> cont \<Rightarrow> cont" where
  "lazy body 0 k s = k s"
| "lazy body (Suc n) k s =
     (case k s of
        Some r \<Rightarrow> Some r
      | None \<Rightarrow> body (\<lambda>s'. if pos s' = pos s then None else lazy body n k s') s)"

text \<open>
  \<open>rmatch r k s\<close> matches \<open>r\<close> at \<open>s\<close> and hands the position after it to the continuation
  \<open>k\<close>; when \<open>k\<close> fails the matcher backtracks. The number of iterations of a star is
  bounded by the characters left, since each iteration consumes one at least.
\<close>

primrec rmatch :: "regex \<Rightarrow> cont \<Rightarrow> cont" where
  "rmatch Eps k s = k s"
| "rmatch (Chr P) k s =
     (case rest s of
        [] \<Rightarrow> None
      | c # cs \<Rightarrow> if P c then k (s\<lparr>pos := Suc (pos s), prev := Some c, rest := cs\<rparr>) else None)"
| "rmatch WordB k s = (if wordBefore s \<noteq> wordAfter s then k s else None)"
| "rmatch EndA k s = (if rest s = [] then k s else None)"
| "rmatch (Cat a b) k s = rmatch a (rmatch b k) s"
| "rmatch (Or a b) k s = (case rmatch a k s of Some r \<Rightarrow> Some r | None \<Rightarrow> rmatch b k s)"
| "rmatch (Star a) k s = greedy (rmatch a) (Suc (length (rest s))) k s"
| "rmatch (LazyStar a) k s = lazy (rmatch a) (Suc (length (rest s))) k s"
| "rmatch (Grp a) k s = rmatch a (\<lambda>s'. k (s'\<lparr>cap := Some (pos s, pos s')\<rparr>)) s"

definition matchAt :: "regex \<Rightarrow> nat \<Rightarrow> char option \<Rightarrow> string \<Rightarrow> mstate option" where
  "matchAt r p pr cs = rmatch r Some \<lparr>pos = p, prev = pr, rest = cs, cap = None\<rparr>"

text \<open>
  \<open>RegExp.prototype.exec\<close> without the global flag: the first position from the left at
  which the expression matches, with the end of the match and the capture.
\<close>

fun search :: "regex \<Rightarrow> nat \<Rightarrow> char option \<Rightarrow> string \<Rightarrow> (nat \<times> mstate) option" where
  "search r p pr [] = (case matchAt r p pr [] of Some s \<Rightarrow> Some (p, s) | None \<Rightarrow> None)"
| "search r p pr (c # cs) =
     (case matchAt r p pr (c # cs) of
        Some s \<Rightarrow> Some (p, s)
      | None \<Rightarrow> search r (Suc p) (Some c) cs)"

definition regexTest :: "regex \<Rightarrow> string \<Rightarrow> bool" where
  "regexTest r content = (search r 0 None content \<noteq> None)"

definition substring :: "string \<Rightarrow> nat \<Rightarrow> nat \<Rightarrow> string" where
  "substring s i j = take (j - i) (drop i s)"

definition firstGroup :: "regex \<Rightarrow> string \<Rightarrow> string option" where
  \<comment> \<open>\<open>s.match(r)\<close> without the global flag, then \<open>match[1]\<close>\<close>
  "firstGroup r s =
     (case search r 0 None s of
        None \<Rightarrow> None
      | Some (p, m) \<Rightarrow> (case cap m of None \<Rightarrow> None | Some (i, j) \<Rightarrow> Some (substring s i j)))"

text \<open>
  \<open>String.prototype.match\<close> with the global flag: the spans of the successive matches.
  After a match from \<open>p\<close> to \<open>e\<close> the next search starts at \<open>e\<close>, or at \<open>p + 1\<close> when
  the match is empty; \<open>skip\<close> counts the positions still to pass over without matching.
  The search ends once it has tried the end of the text.
\<close>

fun gmatch :: "regex \<Rightarrow> nat \<Rightarrow> nat \<Rightarrow> char option \<Rightarrow> string \<Rightarrow> (nat \<times> nat) list" where
  "gmatch r skip p pr [] =
     (if skip = 0 then
        (case matchAt r p pr [] of Some s \<Rightarrow> [(p, pos s)] | None \<Rightarrow> [])
      else [])"
| "gmatch r skip p pr (c # cs) =
     (if 0 < skip then gmatch r (skip - 1) (Suc p) (Some c) cs
      else (case matchAt r p pr (c # cs) of
              Some s \<Rightarrow> (p, pos s) # gmatch r (pos s - p - 1) (Suc p) (Some c) cs
            | None \<Rightarrow> gmatch r 0 (Suc p) (Some c) cs))"

definition matchAll :: "regex \<Rightarrow> string \<Rightarrow> string list" where
  "matchAll r content = map (\<lambda>(i, j). substring content i j) (gmatch r 0 0 None content)"

subsection \<open>Building expressions\<close>

definition lit :: "string \<Rightarrow> regex" where
  "lit s = foldr (\<lambda>c r. Cat (Chr (\<lambda>x. x = c)) r) s Eps"

definition plus :: "regex \<Rightarrow> regex" where
  "plus r = Cat r (Star r)"

definition opt :: "regex \<Rightarrow> regex" where
  "opt r = Or r Eps"

fun alts :: "regex list \<Rightarrow> regex" where
  "alts [] = Eps"
| "alts [r] = r"
| "alts (r # rs) = Or r (alts rs)"

definition anyOf :: "string \<Rightarrow> regex" where
  "anyOf cs = Chr (\<lambda>x. x \<in> set cs)"

definition noneOf :: "string \<Rightarrow> regex" where
  "noneOf cs = Chr (\<lambda>x. x \<notin> set cs)"

definition dot :: regex where
  "dot = Chr (\<lambda>x. \<not> isLineTerminator x)"

definition ws :: regex where
  "ws = Chr isSpace"

text \<open>
  \<open>new RegExp(pattern, 'g')\<close> for the patterns the tool builds at run time: the keyword
  between two \<open>\b\<close>. In a pattern \<open>|\<close> separates alternatives, \<open>\b\<close> is the word
  boundary and every other character of the keyword table stands for itself.
\<close>

fun parseAlternative :: "string \<Rightarrow> regex" where
  "parseAlternative [] = Eps"
| "parseAlternative [c] = Chr (\<lambda>x. x = c)"
| "parseAlternative (c # d # cs) =
     (if c = backslash \<and> d = CHR ''b'' then Cat WordB (parseAlternative cs)
      else Cat (Chr (\<lambda>x. x = c)) (parseAlternative (d # cs)))"

fun splitOn :: "char \<Rightarrow> string \<Rightarrow> string list" where
  "splitOn sep [] = [[]]"
| "splitOn sep (c # cs) =
     (if c = sep then [] # splitOn sep cs
      else (case splitOn sep cs of [] \<Rightarrow> [[c]] | w # ws' \<Rightarrow> (c # w) # ws'))"

definition parsePattern :: "string \<Rightarrow> regex" where
  "parsePattern p = alts (map parseAlternative (splitOn CHR ''|'' p))"

section \<open>The source analyzer\<close>

definition complexityKeywords :: "string list" where
  "complexityKeywords =
     [''if'', ''else'', ''for'', ''while'', ''case'', ''catch'', ''return'', ''&&'', ''||'']"

definition keywordRegex :: "string \<Rightarrow> regex" where
  "keywordRegex keyword = parsePattern ([backslash, CHR ''b''] @ keyword @ [backslash, CHR ''b''])"

definition keywordMatches :: "string \<Rightarrow> string \<Rightarrow> nat" where
  "keywordMatches content keyword = length (matchAll (keywordRegex keyword) content)"

definition calculateComplexity :: "string \<Rightarrow> nat" where
  "calculateComplexity content =
     foldl (\<lambda>complexity keyword. complexity + keywordMatches content keyword) 1 complexityKeywords"

definition importRegex :: regex where
  \<comment> \<open>\<open>/import.*?from\s+['"`]([^'"`]+)['"`]/g\<close>\<close>
  "importRegex =
     Cat (lit ''import'') (Cat (LazyStar dot) (Cat (lit ''from'') (Cat (plus ws)
       (Cat (anyOf quoteChars) (Cat (Grp (plus (noneOf quoteChars))) (anyOf quoteChars))))))"

definition fromRegex :: regex where
  \<comment> \<open>\<open>/from\s+['"`]([^'"`]+)['"`]/\<close>\<close>
  "fromRegex =
     Cat (lit ''from'') (Cat (plus ws)
       (Cat (anyOf quoteChars) (Cat (Grp (plus (noneOf quoteChars))) (anyOf quoteChars))))"

definition declarationKeyword :: regex where
  \<comment> \<open>\<open>(?:class|function|const|let|var)\<close>\<close>
  "declarationKeyword =
     alts [lit ''class'', lit ''function'', lit ''const'', lit ''let'', lit ''var'']"

definition identifierRegex :: regex where
  \<comment> \<open>\<open>([a-zA-Z_$][a-zA-Z0-9_$]*)\<close>\<close>
  "identifierRegex =
     Grp (Cat (Chr (\<lambda>x. isLower x \<or> isUpper x \<or> x = CHR ''_'' \<or> x = CHR ''$''))
              (Star (Chr (\<lambda>x. isWordChar x \<or> x = CHR ''$''))))"

definition exportRegex :: regex where
  \<comment> \<open>\<open>/export\s+(?:default\s+)?(?:class|function|const|let|var)\s+([a-zA-Z_$][a-zA-Z0-9_$]*)/g\<close>\<close>
  "exportRegex =
     Cat (lit ''export'') (Cat (plus ws) (Cat (opt (Cat (lit ''default'') (plus ws)))
       (Cat declarationKeyword (Cat (plus ws) identifierRegex))))"

definition declarationRegex :: regex where
  \<comment> \<open>\<open>/(?:class|function|const|let|var)\s+([a-zA-Z_$][a-zA-Z0-9_$]*)/\<close>\<close>
  "declarationRegex = Cat declarationKeyword (Cat (plus ws) identifierRegex)"

definition extractGroups :: "regex \<Rightarrow> regex \<Rightarrow> string \<Rightarrow> string list" where
  \<comment> \<open>every match of the first expression is matched again with the second, and the
      capture is kept when there is one\<close>
  "extractGroups outer inner content =
     concat (map (\<lambda>m. case firstGroup inner m of None \<Rightarrow> [] | Some g \<Rightarrow> [g])
                 (matchAll outer content))"

definition quoted :: "string \<Rightarrow> regex" where
  \<comment> \<open>\<open>['"`]name['"`]\<close>\<close>
  "quoted name = Cat (anyOf quoteChars) (Cat (lit name) (anyOf quoteChars))"

definition importOf :: "string \<Rightarrow> regex" where
  \<comment> \<open>\<open>import.*?name\<close>\<close>
  "importOf name = Cat (lit ''import'') (Cat (LazyStar dot) (lit name))"

definition fromQuoted :: "string \<Rightarrow> regex" where
  \<comment> \<open>\<open>from\s+['"`]name['"`]\<close>\<close>
  "fromQuoted name = Cat (lit ''from'') (Cat (plus ws) (quoted name))"

definition frameworkPatterns :: "(string \<times> regex) list" where
  "frameworkPatterns =
     [(''React'', alts [importOf ''React'', fromQuoted ''react'', lit ''jsx'', lit ''useState'',
         lit ''useEffect'']),
      (''Vue'', alts [importOf ''Vue'', fromQuoted ''vue'', Cat (lit ''.vue'') EndA,
         lit ''<template>'']),
      (''Angular'', alts [importOf ''@angular'', lit ''Component('', lit ''Injectable('',
         lit ''NgModule('']),
      (''Svelte'', alts [importOf ''svelte'', Cat (lit ''.svelte'') EndA, lit ''<script>'']),
      (''Astro'', alts [Cat (lit ''.astro'') EndA,
         Cat (lit ''---'') (Cat (LazyStar (Chr (\<lambda>x. True))) (lit ''---'')),
         importOf ''astro'']),
      (''Express'', alts [Cat (lit ''require('') (Cat (quoted ''express'') (lit '')'')),
         fromQuoted ''express'']),
      (''Next.js'', alts [lit ''next/'', lit ''getStaticProps'', lit ''getServerSideProps'']),
      (''Nuxt.js'', alts [lit ''nuxt'', lit ''asyncData'', lit ''fetch('']) ]"

definition detectFrameworks :: "string \<Rightarrow> string list" where
  "detectFrameworks content =
     map fst (filter (\<lambda>(framework, pattern). regexTest pattern content) frameworkPatterns)"

definition lineCount :: "string \<Rightarrow> nat" where
  \<comment> \<open>\<open>content.split('\n').length\<close>\<close>
  "lineCount content = Suc (length (filter (\<lambda>c. c = CHR 0x0A) content))"

definition mentionsTests :: "string \<Rightarrow> bool" where
  "mentionsTests content =
     (str_includes content ''test('' \<or> str_includes content ''describe('' \<or>
      str_includes content ''it('')"

text \<open>
  The result of analysing one source file. The result built after a failure lacks the
  fields \<open>functions\<close>, \<open>classes\<close>, \<open>variables\<close>, \<open>linesOfCode\<close>, \<open>hasTests\<close> and
  \<open>frameworks\<close>: an absent field is \<open>None\<close>.
\<close>

record AnalysisResult =
  a_type :: string
  a_error :: "string option"
  a_imports :: "string list"
  a_exports :: "string list"
  a_functions :: "string list option"
  a_classes :: "string list option"
  a_variables :: "string list option"
  a_complexity :: nat
  a_linesOfCode :: "nat option"
  a_hasTests :: "bool option"
  a_frameworks :: "string list option"

definition analyzeText :: "string \<Rightarrow> AnalysisResult" where
  \<comment> \<open>the body of the \<open>try\<close> block of \<open>analyzeJavaScriptFile\<close> once the text has been
      read and parsed\<close>
  "analyzeText content =
     \<lparr>a_type = ''javascript'', a_error = None,
      a_imports = extractGroups importRegex fromRegex content,
      a_exports = extractGroups exportRegex declarationRegex content,
      a_functions = Some [], a_classes = Some [], a_variables = Some [],
      a_complexity = calculateComplexity content,
      a_linesOfCode = Some (lineCount content),
      a_hasTests = Some (mentionsTests content),
      a_frameworks = Some (detectFrameworks content)\<rparr>"

definition failedAnalysis :: "string \<Rightarrow> AnalysisResult" where
  \<comment> \<open>the \<open>catch\<close> block of \<open>analyzeJavaScriptFile\<close>\<close>
  "failedAnalysis message =
     \<lparr>a_type = ''javascript'', a_error = Some message, a_imports = [], a_exports = [],
      a_functions = None, a_classes = None, a_variables = None, a_complexity = 0,
      a_linesOfCode = None, a_hasTests = None, a_frameworks = None\<rparr>"

section \<open>JSON texts\<close>

text \<open>
  \<open>JSON.parse\<close>, as far as the tool depends on it: whether a text is a JSON text, and
  the structure of its value. A number is kept as its lexeme and a string as the
  characters between its quotes, escapes included.
\<close>

datatype json =
    JNull
  | JBool bool
  | JNumber string
  | JString string
  | JArray "json list"
  | JObject "(string \<times> json) list"

definition isJsonSpace :: "char \<Rightarrow> bool" where
  "isJsonSpace c = (code c = 32 \<or> code c = 9 \<or> code c = 10 \<or> code c = 13)"

definition skipWs :: "string \<Rightarrow> string" where
  "skipWs s = dropWhile isJsonSpace s"

definition isHexDigit :: "char \<Rightarrow> bool" where
  "isHexDigit c =
     (isDigit c \<or> (65 \<le> code c \<and> code c \<le> 70) \<or> (97 \<le> code c \<and> code c \<le> 102))"

text \<open>The characters of a string literal after its opening quote, and the text after it.\<close>

fun parseString :: "string \<Rightarrow> (string \<times> string) option" where
  "parseString [] = None"
| "parseString [c] = (if c = CHR 0x22 then Some ([], []) else None)"
| "parseString (c # e # cs) =
     (if c = CHR 0x22 then Some ([], e # cs)
      else if c = backslash then
        (if e \<in> set [CHR 0x22, backslash, CHR ''/'', CHR ''b'', CHR ''f'', CHR ''n'', CHR ''r'',
                      CHR ''t'']
         then map_option (\<lambda>(t, r). (c # e # t, r)) (parseString cs)
         else if e = CHR ''u'' \<and> 4 \<le> length cs \<and> list_all isHexDigit (take 4 cs)
         then map_option (\<lambda>(t, r). (c # e # take 4 cs @ t, r)) (parseString (drop 4 cs))
         else None)
      else if code c < 32 then None
      else map_option (\<lambda>(t, r). (c # t, r)) (parseString (e # cs)))"

definition takeDigits :: "string \<Rightarrow> (string \<times> string) option" where
  \<comment> \<open>one digit at least\<close>
  "takeDigits s =
     (if takeWhile isDigit s = [] then None else Some (takeWhile isDigit s, dropWhile isDigit s))"

definition takeInteger :: "string \<Rightarrow> (string \<times> string) option" where
  \<comment> \<open>\<open>0\<close>, or a digit from 1 to 9 and more digits\<close>
  "takeInteger s =
     (case s of
        [] \<Rightarrow> None
      | c # cs \<Rightarrow> if c = CHR ''0'' then Some ([c], cs) else takeDigits s)"

definition takeFraction :: "string \<Rightarrow> (string \<times> string) option" where
  "takeFraction s =
     (case s of
        [] \<Rightarrow> Some ([], [])
      | c # cs \<Rightarrow>
          if c = CHR ''.'' then map_option (\<lambda>(d, r). (c # d, r)) (takeDigits cs)
          else Some ([], s))"

definition takeSign :: "string \<Rightarrow> string \<times> string" where
  "takeSign s =
     (case s of
        [] \<Rightarrow> ([], [])
      | c # cs \<Rightarrow> if c = CHR ''+'' \<or> c = CHR ''-'' then ([c], cs) else ([], s))"

definition takeExponent :: "string \<Rightarrow> (string \<times> string) option" where
  "takeExponent s =
     (case s of
        [] \<Rightarrow> Some ([], [])
      | c # cs \<Rightarrow>
          if c = CHR ''e'' \<or> c = CHR ''E''
          then map_option (\<lambda>(d, r). (c # fst (takeSign cs) @ d, r)) (takeDigits (snd (takeSign cs)))
          else Some ([], s))"

definition parseNumber :: "string \<Rightarrow> (string \<times> string) option" where
  "parseNumber s =
     (let (minus, s1) = (case s of [] \<Rightarrow> ([], []) | c # cs \<Rightarrow> if c = CHR ''-'' then ([c], cs) else ([], s))
      in case takeInteger s1 of
           None \<Rightarrow> None
         | Some (i, s2) \<Rightarrow>
             (case takeFraction s2 of
                None \<Rightarrow> None
              | Some (f, s3) \<Rightarrow>
                  (case takeExponent s3 of
                     None \<Rightarrow> None
                   | Some (e, s4) \<Rightarrow> Some (minus @ i @ f @ e, s4))))"

text \<open>
  The value at the start of a text and the text after it. The first argument bounds the
  number of calls; a value and a separator use at most two calls for each character they
  consume, so \<open>JSON_parse\<close> never runs out.
\<close>

fun parseValue :: "nat \<Rightarrow> string \<Rightarrow> (json \<times> string) option"
  and parseElements :: "nat \<Rightarrow> string \<Rightarrow> (json list \<times> string) option"
  and parseMembers :: "nat \<Rightarrow> string \<Rightarrow> ((string \<times> json) list \<times> string) option" where
  "parseValue 0 s = None"
| "parseValue (Suc n) s =
     (case skipWs s of
        [] \<Rightarrow> None
      | c # r \<Rightarrow>
          if c = CHR ''{'' then
            (case skipWs r of
               [] \<Rightarrow> None
             | d # r' \<Rightarrow>
                 if d = CHR ''}'' then Some (JObject [], r')
                 else map_option (\<lambda>(ms, t). (JObject ms, t)) (parseMembers n (d # r')))
          else if c = CHR ''['' then
            (case skipWs r of
               [] \<Rightarrow> None
             | d # r' \<Rightarrow>
                 if d = CHR '']'' then Some (JArray [], r')
                 else map_option (\<lambda>(vs, t). (JArray vs, t)) (parseElements n (d # r')))
          else if c = CHR 0x22 then map_option (\<lambda>(t, r'). (JString t, r')) (parseString r)
          else if startsWith (c # r) ''true'' then Some (JBool True, drop 4 (c # r))
          else if startsWith (c # r) ''false'' then Some (JBool False, drop 5 (c # r))
          else if startsWith (c # r) ''null'' then Some (JNull, drop 4 (c # r))
          else map_option (\<lambda>(t, r'). (JNumber t, r')) (parseNumber (c # r)))"
| "parseElements 0 s = None"
| "parseElements (Suc n) s =
     (case parseValue n s of
        None \<Rightarrow> None
      | Some (v, r) \<Rightarrow>
          (case skipWs r of
             [] \<Rightarrow> None
           | c # r' \<Rightarrow>
               if c = CHR '','' then map_option (\<lambda>(vs, t). (v # vs, t)) (parseElements n r')
               else if c = CHR '']'' then Some ([v], r')
               else None))"
| "parseMembers 0 s = None"
| "parseMembers (Suc n) s =
     (case skipWs s of
        [] \<Rightarrow> None
      | q # r \<Rightarrow>
          if q \<noteq> CHR 0x22 then None
          else (case parseString r of
                  None \<Rightarrow> None
                | Some (key, r1) \<Rightarrow>
                    (case skipWs r1 of
                       [] \<Rightarrow> None
                     | c # r2 \<Rightarrow>
                         if c \<noteq> CHR '':'' then None
                         else (case parseValue n r2 of
                                 None \<Rightarrow> None
                               | Some (v, r3) \<Rightarrow>
                                   (case skipWs r3 of
                                      [] \<Rightarrow> None
                                    | d # r4 \<Rightarrow>
                                        if d = CHR '','' then
                                          map_option (\<lambda>(ms, t). ((key, v) # ms, t)) (parseMembers n r4)
                                        else if d = CHR ''}'' then Some ([(key, v)], r4)
                                        else None)))))"

definition JSON_parse :: "string \<Rightarrow> json option" where
  \<comment> \<open>\<open>None\<close> when \<open>JSON.parse\<close> throws a \<open>SyntaxError\<close>\<close>
  "JSON_parse s =
     (case parseValue (2 * length s + 2) s of
        None \<Rightarrow> None
      | Some (v, r) \<Rightarrow> if skipWs r = [] then Some v else None)"

section \<open>Paths and the file system\<close>

text \<open>
  A path is the list of its components below the scanned directory: \<open>path.join\<close> adds a
  component at the end and \<open>path.basename\<close> is the last one. The path relative to the
  scanned directory, as a string, joins the components with slashes.
\<close>

type_synonym path = "string list"

fun joinPath :: "path \<Rightarrow> string" where
  "joinPath [] = []"
| "joinPath [x] = x"
| "joinPath (x # xs) = x @ ''/'' @ joinPath xs"

definition basename :: "path \<Rightarrow> string" where
  "basename p = (if p = [] then [] else last p)"

definition nameExtension :: "string \<Rightarrow> string" where
  \<comment> \<open>the text from the last dot of a file name on; empty when the name has no dot, when
      its only dot comes first, and for the name of two dots\<close>
  "nameExtension name =
     (let suffix = takeWhile (\<lambda>c. c \<noteq> CHR ''.'') (rev name);
          stem = rev (drop (Suc (length suffix)) (rev name))
      in if CHR ''.'' \<notin> set name \<or> stem = [] \<or> name = ''..'' then []
         else CHR ''.'' # rev suffix)"

definition extname :: "path \<Rightarrow> string" where
  "extname p = nameExtension (basename p)"

definition dirname :: "path \<Rightarrow> string" where
  \<comment> \<open>of a relative path: a file directly in the scanned directory has the directory \<open>.\<close>\<close>
  "dirname p = (if length p \<le> 1 then ''.'' else joinPath (butlast p))"

definition toLowerChar :: "char \<Rightarrow> char" where
  \<comment> \<open>the capital letters below code unit 256: A to Z, and 192 to 222 but 215\<close>
  "toLowerChar c =
     (if isUpper c \<or> (192 \<le> code c \<and> code c \<le> 222 \<and> code c \<noteq> 215)
      then char_of (code c + 32) else c)"

definition toLowerCase :: "string \<Rightarrow> string" where
  "toLowerCase s = map toLowerChar s"

text \<open>
  A file has its text, whether it can be read, and the time of its last change; a
  directory lists its entries in the order in which \<open>readdirSync\<close> returns them.
\<close>

datatype node =
    File string bool nat
  | Dir "(string \<times> node) list"

datatype failure =
    ReadFailure path
  | WriteFailure path
  | MkdirFailure path
  | JsonSyntaxError

definition failureMessage :: "failure \<Rightarrow> string" where
  "failureMessage e =
     (case e of
        ReadFailure p \<Rightarrow> ''cannot read '' @ joinPath p
      | WriteFailure p \<Rightarrow> ''cannot write '' @ joinPath p
      | MkdirFailure p \<Rightarrow> ''cannot create '' @ joinPath p
      | JsonSyntaxError \<Rightarrow> ''Unexpected token in JSON'')"

fun lookup :: "node \<Rightarrow> path \<Rightarrow> node option" where
  "lookup n [] = Some n"
| "lookup (File text readable mtime) (x # xs) = None"
| "lookup (Dir entries) (x # xs) =
     (case map_of entries x of None \<Rightarrow> None | Some n \<Rightarrow> lookup n xs)"

definition existsSync :: "node \<Rightarrow> path \<Rightarrow> bool" where
  "existsSync root p = (lookup root p \<noteq> None)"

definition readFileSync :: "node \<Rightarrow> path \<Rightarrow> failure + string" where
  "readFileSync root p =
     (case lookup root p of
        Some (File text readable mtime) \<Rightarrow> if readable then Inr text else Inl (ReadFailure p)
      | _ \<Rightarrow> Inl (ReadFailure p))"

fun replaceEntry :: "string \<Rightarrow> node \<Rightarrow> (string \<times> node) list \<Rightarrow> (string \<times> node) list" where
  "replaceEntry x n [] = []"
| "replaceEntry x n ((y, m) # entries) =
     (if y = x then (y, n) # entries else (y, m) # replaceEntry x n entries)"

text \<open>
  \<open>writeFileSync\<close> replaces the text of a file, or creates the file as the last entry of
  its directory. It fails on a directory, and below a file or a missing directory.
\<close>

fun writeFileSync :: "nat \<Rightarrow> node \<Rightarrow> path \<Rightarrow> string \<Rightarrow> failure + node" where
  "writeFileSync now (File text readable mtime) p new =
     (if p = [] then Inr (File new readable now) else Inl (WriteFailure p))"
| "writeFileSync now (Dir entries) [] new = Inl (WriteFailure [])"
| "writeFileSync now (Dir entries) (x # xs) new =
     (case map_of entries x of
        None \<Rightarrow>
          if xs = [] then Inr (Dir (entries @ [(x, File new True now)]))
          else Inl (WriteFailure (x # xs))
      | Some n \<Rightarrow>
          (case writeFileSync now n xs new of
             Inl e \<Rightarrow> Inl (WriteFailure (x # xs))
           | Inr n' \<Rightarrow> Inr (Dir (replaceEntry x n' entries))))"

definition ANALYSIS_DIR :: string where "ANALYSIS_DIR = ''ai-analysis''"
definition ANALYSIS_SUMMARY_FILE :: string where "ANALYSIS_SUMMARY_FILE = ''analysis_summary.md''"
definition MACHINE_CONTEXT_FILE :: string where "MACHINE_CONTEXT_FILE = ''machine_context.json''"
definition TASK_BACKLOG_FILE :: string where "TASK_BACKLOG_FILE = ''task_backlog.json''"
definition CODE_INVENTORY_FILE :: string where "CODE_INVENTORY_FILE = ''code_inventory.json''"
definition DEPENDENCY_MAP_FILE :: string where "DEPENDENCY_MAP_FILE = ''dependency_map.json''"
definition METRICS_FILE :: string where "METRICS_FILE = ''code_metrics.json''"

definition SUPPORTED_EXTENSIONS :: "string list" where
  "SUPPORTED_EXTENSIONS =
     [''.js'', ''.jsx'', ''.ts'', ''.tsx'', ''.vue'', ''.svelte'', ''.astro'',
      ''.json'', ''.md'', ''.css'', ''.scss'', ''.sass'', ''.less'',
      ''.html'', ''.htm'', ''.xml'', ''.yml'', ''.yaml'', ''.toml'']"

definition createDirectory :: "node \<Rightarrow> string \<Rightarrow> failure + node" where
  \<comment> \<open>of a directory directly below the scanned one\<close>
  "createDirectory root dir =
     (if existsSync root [dir] then Inr root
      else (case root of
              File text readable mtime \<Rightarrow> Inl (MkdirFailure [dir])
            | Dir entries \<Rightarrow> Inr (Dir (entries @ [(dir, Dir [])]))))"

definition isTextFile :: "path \<Rightarrow> bool" where
  "isTextFile filePath = (toLowerCase (extname filePath) \<in> set SUPPORTED_EXTENSIONS)"

section \<open>Directory traversal\<close>

record FileRecord =
  f_path :: path
  f_relativePath :: string
  f_size :: nat
  f_modified :: nat
  f_hash :: string

record Options =
  ignorePatterns :: "string list option"

definition defaultIgnorePatterns :: "string list" where
  "defaultIgnorePatterns = [''.git'', ''node_modules'', ''.next'', ''dist'', ''build'']"

definition ignored :: "string list \<Rightarrow> string \<Rightarrow> bool" where
  \<comment> \<open>\<open>ignorePatterns.some(pattern => item.includes(pattern))\<close>\<close>
  "ignored patterns item = list_ex (\<lambda>pattern. str_includes item pattern) patterns"

text \<open>
  The inner function \<open>traverse\<close> over the entries of the directory \<open>currentDir\<close>. The
  fingerprint of a file is taken from its bytes, so a file that cannot be read ends the
  traversal with the error of the read.
\<close>

fun traverse ::
  "(string \<Rightarrow> string) \<Rightarrow> string list \<Rightarrow> path \<Rightarrow> (string \<times> node) list \<Rightarrow> failure + FileRecord list"
where
  "traverse md5 patterns currentDir [] = Inr []"
| "traverse md5 patterns currentDir ((item, Dir entries) # items) =
     (if ignored patterns item then traverse md5 patterns currentDir items
      else (case traverse md5 patterns (currentDir @ [item]) entries of
              Inl e \<Rightarrow> Inl e
            | Inr found \<Rightarrow>
                (case traverse md5 patterns currentDir items of
                   Inl e \<Rightarrow> Inl e
                 | Inr others \<Rightarrow> Inr (found @ others))))"
| "traverse md5 patterns currentDir ((item, File text readable mtime) # items) =
     (if ignored patterns item then traverse md5 patterns currentDir items
      else if isTextFile (currentDir @ [item]) then
        (if readable then
           (case traverse md5 patterns currentDir items of
              Inl e \<Rightarrow> Inl e
            | Inr others \<Rightarrow>
                Inr (\<lparr>f_path = currentDir @ [item],
                      f_relativePath = joinPath (currentDir @ [item]),
                      f_size = length text, f_modified = mtime, f_hash = md5 text\<rparr> # others))
         else Inl (ReadFailure (currentDir @ [item])))
      else traverse md5 patterns currentDir items)"

definition traverseDirectory ::
  "(string \<Rightarrow> string) \<Rightarrow> node \<Rightarrow> Options \<Rightarrow> failure + FileRecord list" where
  "traverseDirectory md5 root options =
     (case root of
        File text readable mtime \<Rightarrow> Inl (ReadFailure [])
      | Dir entries \<Rightarrow>
          traverse md5
            (case ignorePatterns options of None \<Rightarrow> defaultIgnorePatterns | Some ps \<Rightarrow> ps)
            [] entries)"

section \<open>The inventory\<close>

record InventoryFile = FileRecord +
  f_extension :: string
  f_directory :: string

record CodeInventory =
  inv_totalFiles :: nat
  inv_totalSize :: nat
  inv_fileTypes :: "(string \<times> nat) list"
  inv_files :: "InventoryFile list"

text \<open>
  A JavaScript object whose keys are not numerals keeps its properties in the order of
  their first assignment: an association list in which a new key goes last.
\<close>

fun setProp :: "'k \<Rightarrow> 'v \<Rightarrow> ('k \<times> 'v) list \<Rightarrow> ('k \<times> 'v) list" where
  "setProp k v [] = [(k, v)]"
| "setProp k v ((k', v') # ps) = (if k' = k then (k, v) # ps else (k', v') # setProp k v ps)"

definition inventoryFile :: "FileRecord \<Rightarrow> InventoryFile" where
  "inventoryFile f =
     FileRecord.extend f
       (InventoryFile.fields (extname (f_path f)) (dirname (f_path f)))"

definition countType :: "(string \<times> nat) list \<Rightarrow> InventoryFile \<Rightarrow> (string \<times> nat) list" where
  "countType fileTypes file =
     (let ext = (if f_extension file = [] then ''no-extension'' else f_extension file)
      in setProp ext (case map_of fileTypes ext of None \<Rightarrow> 1 | Some n \<Rightarrow> n + 1) fileTypes)"

definition makeInventory :: "FileRecord list \<Rightarrow> CodeInventory" where
  "makeInventory files =
     \<lparr>inv_totalFiles = length files,
      inv_totalSize = foldl (\<lambda>sum f. sum + f_size f) 0 files,
      inv_fileTypes = foldl countType [] (map inventoryFile files),
      inv_files = map inventoryFile files\<rparr>"

section \<open>Per-file analysis and aggregation\<close>

text \<open>
  The Babel parser is a library outside the repository. It is a parameter \<open>babel\<close> of the
  model: \<open>babel content\<close> is the message of the error the parser throws on \<open>content\<close>,
  and \<open>None\<close> when it accepts the text.
\<close>

definition analyzeJavaScriptFile ::
  "(string \<Rightarrow> string option) \<Rightarrow> node \<Rightarrow> path \<Rightarrow> AnalysisResult" where
  "analyzeJavaScriptFile babel root filePath =
     (case readFileSync root filePath of
        Inl e \<Rightarrow> failedAnalysis (failureMessage e)
      | Inr content \<Rightarrow>
          (case babel content of
             Some message \<Rightarrow> failedAnalysis message
           | None \<Rightarrow> analyzeText content))"

datatype configContent = Parsed json | Raw string

record ConfigAnalysis =
  cfg_type :: string
  cfg_configType :: string
  cfg_content :: configContent

definition configTypes :: "(string \<times> string) list" where
  "configTypes =
     [(''package.json'', ''npm''), (''composer.json'', ''composer''),
      (''requirements.txt'', ''python''), (''Gemfile'', ''ruby''), (''go.mod'', ''go''),
      (''Cargo.toml'', ''rust'')]"

text \<open>
  \<open>analyzeConfigFile\<close> has no \<open>try\<close> block: the error of the read and the
  \<open>SyntaxError\<close> of \<open>JSON.parse\<close> leave the function.
\<close>

definition analyzeConfigFile :: "node \<Rightarrow> path \<Rightarrow> failure + ConfigAnalysis" where
  "analyzeConfigFile root filePath =
     (let fileName = basename filePath in
      case readFileSync root filePath of
        Inl e \<Rightarrow> Inl e
      | Inr content \<Rightarrow>
          (let configType = (case map_of configTypes fileName of None \<Rightarrow> ''unknown'' | Some t \<Rightarrow> t)
           in if fileName = ''package.json'' then
                (case JSON_parse content of
                   None \<Rightarrow> Inl JsonSyntaxError
                 | Some v \<Rightarrow>
                     Inr \<lparr>cfg_type = ''config'', cfg_configType = configType,
                          cfg_content = Parsed v\<rparr>)
              else Inr \<lparr>cfg_type = ''config'', cfg_configType = configType,
                        cfg_content = Raw content\<rparr>))"

record ConfigFile =
  cf_file :: string
  cf_type :: string
  cf_content :: configContent

record Metrics =
  m_totalLinesOfCode :: nat
  m_totalComplexity :: nat
  m_frameworks :: "string list"
  m_hasTests :: bool
  m_configFiles :: "ConfigFile list"

record DependencyMap =
  d_internal :: "(string \<times> string list) list"
  d_external :: "string list"

text \<open>The three values that the loop over the inventory updates.\<close>

record LoopState =
  fileAnalysis :: "(string \<times> AnalysisResult) list"
  dependencyMap :: DependencyMap
  metrics :: Metrics

definition initialState :: LoopState where
  "initialState =
     \<lparr>fileAnalysis = [],
      dependencyMap = \<lparr>d_internal = [], d_external = []\<rparr>,
      metrics = \<lparr>m_totalLinesOfCode = 0, m_totalComplexity = 0, m_frameworks = [],
                 m_hasTests = False, m_configFiles = []\<rparr>\<rparr>"

definition sourceExtensions :: "string list" where
  "sourceExtensions = [''.js'', ''.jsx'', ''.ts'', ''.tsx'', ''.vue'', ''.svelte'', ''.astro'']"

definition configNames :: "string list" where
  "configNames = [''package.json'', ''composer.json'', ''requirements.txt'']"

definition addToSet :: "string list \<Rightarrow> string \<Rightarrow> string list" where
  \<comment> \<open>\<open>Set.prototype.add\<close>, and \<open>includes\<close> before \<open>push\<close>: a new element goes last\<close>
  "addToSet xs x = (if x \<in> set xs then xs else xs @ [x])"

definition pushInternal ::
  "string \<Rightarrow> string \<Rightarrow> (string \<times> string list) list \<Rightarrow> (string \<times> string list) list" where
  "pushInternal file imp internal =
     (case map_of internal file of
        None \<Rightarrow> setProp file [imp] internal
      | Some imps \<Rightarrow> setProp file (imps @ [imp]) internal)"

definition recordImport :: "string \<Rightarrow> DependencyMap \<Rightarrow> string \<Rightarrow> DependencyMap" where
  "recordImport file dm imp =
     (if startsWith imp ''.'' then dm\<lparr>d_internal := pushInternal file imp (d_internal dm)\<rparr>
      else dm\<lparr>d_external := addToSet (d_external dm) imp\<rparr>)"

definition addAnalysis :: "Metrics \<Rightarrow> AnalysisResult \<Rightarrow> Metrics" where
  "addAnalysis m analysis =
     m\<lparr>m_totalLinesOfCode :=
         m_totalLinesOfCode m + (case a_linesOfCode analysis of None \<Rightarrow> 0 | Some n \<Rightarrow> n),
       m_totalComplexity := m_totalComplexity m + a_complexity analysis,
       m_hasTests := (if a_hasTests analysis = Some True then True else m_hasTests m),
       m_frameworks :=
         foldl addToSet (m_frameworks m)
           (case a_frameworks analysis of None \<Rightarrow> [] | Some fws \<Rightarrow> fws)\<rparr>"

definition isSourceFile :: "path \<Rightarrow> bool" where
  "isSourceFile fullPath = (extname fullPath \<in> set sourceExtensions)"

definition isConfigFile :: "path \<Rightarrow> bool" where
  "isConfigFile fullPath = (basename fullPath \<in> set configNames)"

text \<open>The body of the loop over \<open>codeInventory.files\<close>.\<close>

definition analyzeFile ::
  "(string \<Rightarrow> string option) \<Rightarrow> node \<Rightarrow> InventoryFile \<Rightarrow> LoopState \<Rightarrow> failure + LoopState" where
  "analyzeFile babel root file st =
     (let fullPath = f_path file in
      if isSourceFile fullPath then
        (let analysis = analyzeJavaScriptFile babel root fullPath in
         Inr \<lparr>fileAnalysis = setProp (f_relativePath file) analysis (fileAnalysis st),
              dependencyMap =
                foldl (recordImport (f_relativePath file)) (dependencyMap st) (a_imports analysis),
              metrics = addAnalysis (metrics st) analysis\<rparr>)
      else if isConfigFile fullPath then
        (case analyzeConfigFile root fullPath of
           Inl e \<Rightarrow> Inl e
         | Inr configAnalysis \<Rightarrow>
             Inr (st\<lparr>metrics := (metrics st)\<lparr>m_configFiles :=
                    m_configFiles (metrics st) @
                      [\<lparr>cf_file = f_relativePath file,
                        cf_type = cfg_configType configAnalysis,
                        cf_content = cfg_content configAnalysis\<rparr>]\<rparr>\<rparr>))
      else Inr st)"

fun analyzeFiles ::
  "(string \<Rightarrow> string option) \<Rightarrow> node \<Rightarrow> InventoryFile list \<Rightarrow> LoopState \<Rightarrow> failure + LoopState"
where
  "analyzeFiles babel root [] st = Inr st"
| "analyzeFiles babel root (file # files) st =
     (case analyzeFile babel root file st of
        Inl e \<Rightarrow> Inl e
      | Inr st' \<Rightarrow> analyzeFiles babel root files st')"

section \<open>The documents\<close>

record Summary =
  s_fileCount :: nat
  s_totalSize :: nat
  s_linesOfCode :: nat
  s_complexity :: nat
  s_frameworks :: "string list"
  s_hasTests :: bool

record MachineContext =
  c_timestamp :: string
  c_projectPath :: string
  c_analysisVersion :: string
  c_summary :: Summary
  c_files :: "(string \<times> AnalysisResult) list"
  c_dependencies :: DependencyMap
  c_metrics :: Metrics

record Task =
  t_id :: string
  t_title :: string
  t_priority :: string
  t_status :: string
  t_description :: string
  t_estimatedEffort :: string
  t_tags :: "string list"
  t_sourceFiles :: "string list"
  t_prompt :: string

record Backlog =
  b_version :: string
  b_generated :: string
  b_totalTasks :: nat
  b_tasks :: "Task list"

text \<open>The values that the template of \<open>generateAnalysisSummary\<close> renders.\<close>

record Report =
  rep_inventory :: CodeInventory
  rep_analysis :: "(string \<times> AnalysisResult) list"
  rep_dependencies :: DependencyMap
  rep_metrics :: Metrics
  rep_projectPath :: string
  rep_date :: string

datatype artifact =
    InventoryDoc CodeInventory
  | DependencyDoc DependencyMap
  | MetricsDoc Metrics
  | SummaryDoc Report
  | ContextDoc MachineContext
  | BacklogDoc Backlog

subsection \<open>The task backlog\<close>

definition digitChar :: "nat \<Rightarrow> char" where
  "digitChar d = char_of (48 + d)"

fun decimal :: "nat \<Rightarrow> string" where
  "decimal n = (if n < 10 then [digitChar n] else decimal (n div 10) @ [digitChar (n mod 10)])"

definition padStart :: "nat \<Rightarrow> char \<Rightarrow> string \<Rightarrow> string" where
  "padStart targetLength c s = replicate (targetLength - length s) c @ s"

definition taskIdentifier :: "nat \<Rightarrow> string" where
  \<comment> \<open>\<open>`T-${String(taskId).padStart(3, '0')}`\<close>\<close>
  "taskIdentifier taskId = ''T-'' @ padStart 3 CHR ''0'' (decimal taskId)"

definition testingTask :: "nat \<Rightarrow> Task" where
  "testingTask taskId =
     \<lparr>t_id = taskIdentifier taskId,
      t_title = ''Add Testing Framework Setup'',
      t_priority = ''high'',
      t_status = ''pending'',
      t_description = ''Set up a testing framework and create initial test structure'',
      t_estimatedEffort = ''medium'',
      t_tags = [''testing'', ''setup''],
      t_sourceFiles = [''package.json''],
      t_prompt = ''Please help set up a comprehensive testing framework for this project. Analyze the current tech stack and recommend appropriate testing tools. Create basic test structure and configuration files.''\<rparr>"

definition highComplexityFiles :: "(string \<times> AnalysisResult) list \<Rightarrow> string list" where
  \<comment> \<open>\<open>Object.keys(files).filter(f => files[f].complexity && files[f].complexity > 20)\<close>\<close>
  "highComplexityFiles files =
     filter (\<lambda>f. case map_of files f of
                    None \<Rightarrow> False
                  | Some a \<Rightarrow> a_complexity a \<noteq> 0 \<and> 20 < a_complexity a)
            (map fst files)"

definition refactorTask :: "nat \<Rightarrow> (string \<times> AnalysisResult) list \<Rightarrow> Task" where
  "refactorTask taskId files =
     \<lparr>t_id = taskIdentifier taskId,
      t_title = ''Refactor High Complexity Functions'',
      t_priority = ''medium'',
      t_status = ''pending'',
      t_description = ''Identify and refactor functions with high cyclomatic complexity'',
      t_estimatedEffort = ''large'',
      t_tags = [''refactoring'', ''complexity''],
      t_sourceFiles = highComplexityFiles files,
      t_prompt = ''Please analyze these high-complexity files and suggest refactoring strategies to reduce complexity while maintaining functionality.''\<rparr>"

text \<open>
  \<open>generateTaskBacklog\<close> keeps the list \<open>tasks\<close> and the counter \<open>taskId\<close>; each rule
  that fires pushes its task and increments the counter. \<open>generated\<close> is the time of the
  call.
\<close>

definition generateTaskBacklog :: "string \<Rightarrow> MachineContext \<Rightarrow> Backlog" where
  "generateTaskBacklog generated ctx =
     (let start = ([], 1);
          afterTests =
            (if \<not> s_hasTests (c_summary ctx)
             then (fst start @ [testingTask (snd start)], snd start + 1) else start);
          afterComplexity =
            (if 100 < s_complexity (c_summary ctx)
             then (fst afterTests @ [refactorTask (snd afterTests) (c_files ctx)],
                   snd afterTests + 1)
             else afterTests);
          tasks = fst afterComplexity
      in \<lparr>b_version = ''3.0'', b_generated = generated, b_totalTasks = length tasks,
           b_tasks = tasks\<rparr>)"

section \<open>The analysis run\<close>

text \<open>
  What a run takes from outside the repository: the Babel parser, the MD5 digest, the
  rendering of a document as the text of its file (\<open>JSON.stringify\<close> with two spaces of
  indentation, and the template of the report), the clock (the text of the \<open>n\<close>-th date
  that the run asks for) and the time that the file system gives to a file written
  during the run.
\<close>

record platform =
  babelParse :: "string \<Rightarrow> string option"
  md5 :: "string \<Rightarrow> string"
  stringify :: "artifact \<Rightarrow> string"
  isoDate :: "nat \<Rightarrow> string"
  fileTime :: nat

text \<open>
  How a run ends: the process exits with a code, an error leaves \<open>runAnalysis\<close>, or the
  run completes. A result also lists the documents written, in the order of the writes,
  and the directory as the run leaves it.
\<close>

datatype status = Exited nat | Threw failure | Completed

record RunResult =
  r_status :: status
  r_written :: "(string \<times> artifact) list"
  r_disk :: "node option"

definition analysisDocuments ::
  "platform \<Rightarrow> string \<Rightarrow> CodeInventory \<Rightarrow> LoopState \<Rightarrow> (string \<times> artifact) list" where
  "analysisDocuments plat baseDir codeInventory st =
     (let summary =
            \<lparr>rep_inventory = codeInventory, rep_analysis = fileAnalysis st,
             rep_dependencies = dependencyMap st, rep_metrics = metrics st,
             rep_projectPath = baseDir, rep_date = isoDate plat 0\<rparr>;
          machineContext =
            \<lparr>c_timestamp = isoDate plat 1, c_projectPath = baseDir, c_analysisVersion = ''3.0'',
             c_summary =
               \<lparr>s_fileCount = inv_totalFiles codeInventory,
                s_totalSize = inv_totalSize codeInventory,
                s_linesOfCode = m_totalLinesOfCode (metrics st),
                s_complexity = m_totalComplexity (metrics st),
                s_frameworks = m_frameworks (metrics st),
                s_hasTests = m_hasTests (metrics st)\<rparr>,
             c_files = fileAnalysis st, c_dependencies = dependencyMap st,
             c_metrics = metrics st\<rparr>;
          taskBacklog = generateTaskBacklog (isoDate plat 2) machineContext
      in [(DEPENDENCY_MAP_FILE, DependencyDoc (dependencyMap st)),
          (METRICS_FILE, MetricsDoc (metrics st)),
          (ANALYSIS_SUMMARY_FILE, SummaryDoc summary),
          (MACHINE_CONTEXT_FILE, ContextDoc machineContext),
          (TASK_BACKLOG_FILE, BacklogDoc taskBacklog)])"

fun saveAll ::
  "platform \<Rightarrow> node \<Rightarrow> (string \<times> artifact) list \<Rightarrow> (string \<times> artifact) list \<Rightarrow> RunResult" where
  "saveAll plat root [] written =
     \<lparr>r_status = Completed, r_written = written, r_disk = Some root\<rparr>"
| "saveAll plat root ((name, doc) # docs) written =
     (case writeFileSync (fileTime plat) root [ANALYSIS_DIR, name] (stringify plat doc) of
        Inl e \<Rightarrow> \<lparr>r_status = Threw e, r_written = written, r_disk = Some root\<rparr>
      | Inr root' \<Rightarrow> saveAll plat root' docs (written @ [(name, doc)]))"

text \<open>
  \<open>runAnalysis plat baseDir disk options\<close>: \<open>disk\<close> is what is at \<open>baseDir\<close>, \<open>None\<close>
  when nothing is there. The inventory is written as soon as it is built, before the loop
  over its files; the other five documents are written after the loop.
\<close>

definition runAnalysis :: "platform \<Rightarrow> string \<Rightarrow> node option \<Rightarrow> Options \<Rightarrow> RunResult" where
  "runAnalysis plat baseDir disk options =
     (case disk of
        None \<Rightarrow> \<lparr>r_status = Exited 1, r_written = [], r_disk = None\<rparr>
      | Some root \<Rightarrow>
          (case createDirectory root ANALYSIS_DIR of
             Inl e \<Rightarrow> \<lparr>r_status = Threw e, r_written = [], r_disk = Some root\<rparr>
           | Inr root1 \<Rightarrow>
               (case traverseDirectory (md5 plat) root1 options of
                  Inl e \<Rightarrow> \<lparr>r_status = Threw e, r_written = [], r_disk = Some root1\<rparr>
                | Inr files \<Rightarrow>
                    (let codeInventory = makeInventory files in
                     case writeFileSync (fileTime plat) root1 [ANALYSIS_DIR, CODE_INVENTORY_FILE]
                            (stringify plat (InventoryDoc codeInventory)) of
                       Inl e \<Rightarrow> \<lparr>r_status = Threw e, r_written = [], r_disk = Some root1\<rparr>
                     | Inr root2 \<Rightarrow>
                         (case analyzeFiles (babelParse plat) root2 (inv_files codeInventory)
                                 initialState of
                            Inl e \<Rightarrow>
                              \<lparr>r_status = Threw e,
                               r_written = [(CODE_INVENTORY_FILE, InventoryDoc codeInventory)],
                               r_disk = Some root2\<rparr>
                          | Inr st \<Rightarrow>
                              saveAll plat root2
                                (analysisDocuments plat baseDir codeInventory st)
                                [(CODE_INVENTORY_FILE, InventoryDoc codeInventory)])))))"

section \<open>The work command\<close>

definition findTask :: "Task list \<Rightarrow> string \<Rightarrow> Task option" where
  \<comment> \<open>\<open>backlog.tasks.find(t => t.id.toLowerCase() === taskId.toLowerCase())\<close>\<close>
  "findTask tasks taskId = find (\<lambda>t. toLowerCase (t_id t) = toLowerCase taskId) tasks"

fun joinWith :: "string \<Rightarrow> string list \<Rightarrow> string" where
  "joinWith sep [] = []"
| "joinWith sep [x] = x"
| "joinWith sep (x # xs) = x @ sep @ joinWith sep xs"

definition orElse :: "string \<Rightarrow> string \<Rightarrow> string" where
  \<comment> \<open>\<open>s || d\<close> on strings: the empty string is falsy\<close>
  "orElse s d = (if s = [] then d else s)"

definition newline :: string where
  "newline = [CHR 0x0A]"

definition fence :: string where
  "fence = [CHR 0x60, CHR 0x60, CHR 0x60]"

definition sourceSection :: "(string \<Rightarrow> string option) \<Rightarrow> string \<Rightarrow> string" where
  "sourceSection sourceText file =
     (case sourceText file of
        Some content \<Rightarrow>
          ''### '' @ file @ newline @ fence
            @ drop 1 (nameExtension (last (splitOn CHR ''/'' file))) @ newline
            @ content @ newline @ fence
      | None \<Rightarrow> ''### '' @ file @ '' (Not Found)'')"

definition contextSentence :: "MachineContext option \<Rightarrow> string" where
  "contextSentence contextFile =
     (case contextFile of
        None \<Rightarrow> []
      | Some ctx \<Rightarrow>
          ''This is part of a '' @ orElse (joinWith '', '' (s_frameworks (c_summary ctx))) ''JavaScript''
            @ '' project with '' @ decimal (s_fileCount (c_summary ctx)) @ '' files and ''
            @ decimal (s_linesOfCode (c_summary ctx)) @ '' lines of code.'')"

definition composePrompt ::
  "MachineContext option \<Rightarrow> (string \<Rightarrow> string option) \<Rightarrow> Task \<Rightarrow> string" where
  "composePrompt contextFile sourceText task =
     (let sourceContext =
            (if t_sourceFiles task \<noteq> []
             then joinWith (newline @ newline) (map (sourceSection sourceText) (t_sourceFiles task))
             else [])
      in ''# Task: '' @ t_title task @ newline @ newline
         @ t_description task @ newline @ newline
         @ ''**Priority:** '' @ t_priority task @ newline
         @ ''**Estimated Effort:** '' @ t_estimatedEffort task @ newline
         @ ''**Tags:** '' @ orElse (joinWith '', '' (t_tags task)) ''none'' @ newline @ newline
         @ ''## Context'' @ newline
         @ contextSentence contextFile @ newline @ newline
         @ t_prompt task @ newline @ newline
         @ ''## Source Files'' @ newline
         @ orElse sourceContext ''No source files specified for this task.'' @ newline @ newline
         @ ''---'' @ newline
         @ ''*Generated by AI Refactoring Tool v3.0*'')"

text \<open>
  How the command ends. The backlog and the context are the parsed documents of the
  analysis directory, \<open>None\<close> for a missing file; \<open>sourceText file\<close> is the text of
  \<open>file\<close> below the project directory when the file exists; \<open>task\<close> is the option
  \<open>--task\<close>, \<open>None\<close> when it is not given.
\<close>

datatype workOutcome =
    BacklogNotFound
  | AllCompleted
  | PendingListed "Task list"
  | TaskNotFound
  | PromptWritten Task string

definition listPending :: "Backlog \<Rightarrow> workOutcome" where
  "listPending backlog =
     (let pendingTasks = filter (\<lambda>t. t_status t = ''pending'') (b_tasks backlog)
      in if pendingTasks = [] then AllCompleted else PendingListed pendingTasks)"

definition runWork ::
  "Backlog option \<Rightarrow> MachineContext option \<Rightarrow> (string \<Rightarrow> string option) \<Rightarrow> string option
     \<Rightarrow> workOutcome" where
  "runWork backlogFile contextFile sourceText task =
     (case backlogFile of
        None \<Rightarrow> BacklogNotFound
      | Some backlog \<Rightarrow>
          (case task of
             None \<Rightarrow> listPending backlog
           | Some taskId \<Rightarrow>
               if taskId = [] then listPending backlog
               else (case findTask (b_tasks backlog) taskId of
                       None \<Rightarrow> TaskNotFound
                     | Some t \<Rightarrow> PromptWritten t (composePrompt contextFile sourceText t))))"

section \<open>Vocabulary of the statements\<close>

definition analysisOf :: "(string \<Rightarrow> string option) \<Rightarrow> node \<Rightarrow> InventoryFile \<Rightarrow> AnalysisResult" where
  \<comment> \<open>the result that the loop computes for a source file of the inventory\<close>
  "analysisOf babel root f = analyzeJavaScriptFile babel root (f_path f)"

definition sourceFiles :: "InventoryFile list \<Rightarrow> InventoryFile list" where
  \<comment> \<open>the files of the inventory that the loop analyses as source files\<close>
  "sourceFiles files = filter (\<lambda>f. isSourceFile (f_path f)) files"

definition succeeded :: "AnalysisResult \<Rightarrow> bool" where
  "succeeded a = (a_error a = None)"

definition linesOfCodeOr0 :: "AnalysisResult \<Rightarrow> nat" where
  "linesOfCodeOr0 a = (case a_linesOfCode a of None \<Rightarrow> 0 | Some n \<Rightarrow> n)"

definition relativeImports :: "AnalysisResult \<Rightarrow> string list" where
  \<comment> \<open>the specifiers that begin with a dot (so with \<open>.\<close> or \<open>..\<close>), in extraction order\<close>
  "relativeImports a = filter (\<lambda>imp. startsWith imp ''.'') (a_imports a)"

definition packageImports :: "AnalysisResult \<Rightarrow> string list" where
  "packageImports a = filter (\<lambda>imp. \<not> startsWith imp ''.'') (a_imports a)"

definition firstOccurrences :: "string list \<Rightarrow> string list" where
  \<comment> \<open>each element once, at the place of its first occurrence\<close>
  "firstOccurrences xs = rev (remdups (rev xs))"

definition listAt :: "(string \<times> string list) list \<Rightarrow> string \<Rightarrow> string list" where
  "listAt internal file = (case map_of internal file of None \<Rightarrow> [] | Some imps \<Rightarrow> imps)"

definition allRelative :: "(string \<times> string list) list \<Rightarrow> bool" where
  "allRelative internal = (\<forall>(file, imps)\<in>set internal. \<forall>imp\<in>set imps. startsWith imp ''.'')"

definition importsUnder ::
  "(string \<Rightarrow> string option) \<Rightarrow> node \<Rightarrow> InventoryFile list \<Rightarrow> string \<Rightarrow> string list" where
  "importsUnder babel root files r =
     concat (map (\<lambda>f. relativeImports (analysisOf babel root f))
                 (filter (\<lambda>f. f_relativePath f = r) (sourceFiles files)))"

section \<open>The complexity score as the specification words it\<close>

text \<open>
  The specification counts, for each keyword, its occurrences as a whole word, and for
  each of the two operators its occurrences as a token, and adds them to 1.
\<close>

definition wholeWordCount :: "string \<Rightarrow> string \<Rightarrow> nat" where
  "wholeWordCount content word = length (matchAll (Cat WordB (Cat (lit word) WordB)) content)"

definition tokenCount :: "string \<Rightarrow> string \<Rightarrow> nat" where
  "tokenCount content token = length (matchAll (lit token) content)"

definition specifiedComplexity :: "string \<Rightarrow> nat" where
  "specifiedComplexity content =
     1 + sum_list (map (wholeWordCount content)
                    [''if'', ''else'', ''for'', ''while'', ''case'', ''catch'', ''return''])
       + tokenCount content ''&&'' + tokenCount content ''||''"

section \<open>Examples\<close>

definition scenarioText :: string where
  "scenarioText = ''if (x) { return 1; } else { return 2; }''"

definition exampleContext :: MachineContext where
  "exampleContext =
     \<lparr>c_timestamp = ''2024-01-01T00:00:00.000Z'', c_projectPath = ''proj'',
      c_analysisVersion = ''3.0'',
      c_summary = \<lparr>s_fileCount = 2, s_totalSize = 900, s_linesOfCode = 60, s_complexity = 130,
                   s_frameworks = [], s_hasTests = False\<rparr>,
      c_files = [(''a.js'', (analyzeText []) \<lparr>a_complexity := 21\<rparr>),
                 (''b.js'', (analyzeText []) \<lparr>a_complexity := 20\<rparr>)],
      c_dependencies = \<lparr>d_internal = [], d_external = []\<rparr>,
      c_metrics = metrics initialState\<rparr>"

definition exampleBacklog :: Backlog where
  "exampleBacklog = generateTaskBacklog ''2024-01-01T00:00:00.000Z'' exampleContext"

text \<open>
  A project of three files: \<open>a.js\<close> imports the package \<open>a.js\<close> and the module
  \<open>./b\<close>, \<open>b.js\<close> holds a text that the parser rejects, and \<open>package.json\<close> holds an
  empty object. The parser, the digest and the rendering of the examples are stand-ins:
  the parser rejects the text \<open>(\<close> and accepts the other texts of the examples, the digest
  of a text is the text, and every document is rendered as \<open>{}\<close>.
\<close>

definition importsText :: string where
  "importsText =
     ''import x from '' @ [CHR 0x27] @ ''a.js'' @ [CHR 0x27, CHR 0x0A]
       @ ''import y from '' @ [CHR 0x22] @ ''./b'' @ [CHR 0x22]"

definition exampleParser :: "string \<Rightarrow> string option" where
  "exampleParser content = (if content = ''('' then Some ''Unexpected token (1:1)'' else None)"

definition examplePlatform :: platform where
  "examplePlatform =
     \<lparr>babelParse = exampleParser, md5 = (\<lambda>text. text), stringify = (\<lambda>doc. ''{}''),
      isoDate = (\<lambda>n. ''2024-01-01T00:00:0'' @ decimal n @ ''.000Z''), fileTime = 10\<rparr>"

definition exampleOptions :: Options where
  \<comment> \<open>the ignore set of the command line without \<open>--ignore\<close>\<close>
  "exampleOptions = \<lparr>ignorePatterns = Some [''.git'', ''node_modules'', ''dist'', ''build'']\<rparr>"

definition exampleTree :: node where
  "exampleTree =
     Dir [(''a.js'', File importsText True 1), (''b.js'', File ''('' True 2),
          (''package.json'', File ''{}'' True 3)]"

definition exampleFiles :: "InventoryFile list" where
  "exampleFiles =
     [\<lparr>f_path = [''a.js''], f_relativePath = ''a.js'', f_size = 40, f_modified = 1,
       f_hash = importsText, f_extension = ''.js'', f_directory = ''.''\<rparr>,
      \<lparr>f_path = [''b.js''], f_relativePath = ''b.js'', f_size = 1, f_modified = 2,
       f_hash = ''('', f_extension = ''.js'', f_directory = ''.''\<rparr>,
      \<lparr>f_path = [''package.json''], f_relativePath = ''package.json'', f_size = 2,
       f_modified = 3, f_hash = ''{}'', f_extension = ''.json'', f_directory = ''.''\<rparr>]"

definition exampleState :: LoopState where
  "exampleState =
     \<lparr>fileAnalysis =
        [(''a.js'',
          \<lparr>a_type = ''javascript'', a_error = None, a_imports = [''a.js'', ''./b''],
           a_exports = [], a_functions = Some [], a_classes = Some [], a_variables = Some [],
           a_complexity = 42, a_linesOfCode = Some 2, a_hasTests = Some False,
           a_frameworks = Some []\<rparr>),
         (''b.js'',
          \<lparr>a_type = ''javascript'', a_error = Some ''Unexpected token (1:1)'', a_imports = [],
           a_exports = [], a_functions = None, a_classes = None, a_variables = None,
           a_complexity = 0, a_linesOfCode = None, a_hasTests = None, a_frameworks = None\<rparr>)],
      dependencyMap = \<lparr>d_internal = [(''a.js'', [''./b''])], d_external = [''a.js'']\<rparr>,
      metrics =
        \<lparr>m_totalLinesOfCode = 2, m_totalComplexity = 42, m_frameworks = [], m_hasTests = False,
         m_configFiles =
           [\<lparr>cf_file = ''package.json'', cf_type = ''npm'', cf_content = Parsed (JObject [])\<rparr>]\<rparr>\<rparr>"

(*PROPERTIES*)
section \<open>The complexity score\<close>

text \<open>
  The pattern built for the keyword \<open>||\<close> is \<open>\b||\b\<close>: three alternatives, the
  second of them empty. It matches the empty string at every position of every text, so
  the keyword adds the length of the text plus one to the score.
\<close>

lemma keywordRegex_or: "keywordRegex ''||'' = Or (Cat WordB Eps) (Or Eps (Cat WordB Eps))"
  by (simp add: keywordRegex_def parsePattern_def backslash_def)

lemma matchAt_keywordRegex_or:
  "matchAt (keywordRegex ''||'') p pr cs = Some \<lparr>pos = p, prev = pr, rest = cs, cap = None\<rparr>"
  by (simp add: keywordRegex_or matchAt_def)

lemma gmatch_keywordRegex_or: "length (gmatch (keywordRegex ''||'') 0 p pr cs) = Suc (length cs)"
  by (induction cs arbitrary: p pr) (simp_all add: matchAt_keywordRegex_or)

lemma keywordMatches_or: "keywordMatches content ''||'' = Suc (length content)"
  by (simp add: keywordMatches_def matchAll_def gmatch_keywordRegex_or)

lemma calculateComplexity_exceeds_length: "length content + 2 \<le> calculateComplexity content"
  by (simp add: calculateComplexity_def complexityKeywords_def keywordMatches_or)

text \<open>
  C5. The score is specified as 1 plus the whole-word occurrences of the seven keywords
  and the occurrences of the two operators. On the text of the specification's own
  scenario that sum is 5 (one \<open>if\<close>, one \<open>else\<close>, two \<open>return\<close>), and
  \<open>calculateComplexity\<close> returns 45: the pattern of \<open>||\<close> adds 40, one for each of the 39
  characters and one for the end of the text.
\<close>

theorem calculateComplexity_scenario:
  "calculateComplexity scenarioText = 45 \<and> specifiedComplexity scenarioText = 5"
  by code_simp

section \<open>The loop over the inventory\<close>

subsection \<open>The examples\<close>

lemma example_inventory:
  "map_sum id (\<lambda>files. inv_files (makeInventory files))
     (traverseDirectory (md5 examplePlatform) exampleTree exampleOptions) = Inr exampleFiles"
  by code_simp

lemma example_loop:
  "analyzeFiles exampleParser exampleTree exampleFiles initialState = Inr exampleState"
  by code_simp

lemma example_distinct: "distinct (map f_relativePath exampleFiles)"
  by code_simp

lemma example_analyses:
  "map (analysisOf exampleParser exampleTree) (sourceFiles exampleFiles)
     = map snd (fileAnalysis exampleState)"
  by code_simp

subsection \<open>Results of the source analyzer\<close>

lemma analysis_cases:
  "(\<exists>message. analyzeJavaScriptFile babel root p = failedAnalysis message) \<or>
   (\<exists>content. analyzeJavaScriptFile babel root p = analyzeText content)"
  by (auto simp: analyzeJavaScriptFile_def split: sum.splits option.splits)

lemma analysis_no_error:
  assumes "a_error (analyzeJavaScriptFile babel root p) = None"
  shows "\<exists>content. analyzeJavaScriptFile babel root p = analyzeText content"
  using analysis_cases [of babel root p] assms by (auto simp: failedAnalysis_def)

lemma analysis_error_lines:
  "a_error (analyzeJavaScriptFile babel root p) \<noteq> None \<Longrightarrow>
   a_linesOfCode (analyzeJavaScriptFile babel root p) = None"
  using analysis_cases [of babel root p] by (auto simp: failedAnalysis_def analyzeText_def)

lemma calculateComplexity_pos: "1 \<le> calculateComplexity content"
proof -
  have "\<And>n ks. n \<le> foldl (\<lambda>complexity keyword. complexity + keywordMatches content keyword) n ks"
  proof -
    fix n ks show "n \<le> foldl (\<lambda>complexity keyword. complexity + keywordMatches content keyword) n ks"
      by (induction ks arbitrary: n) (auto intro: le_trans [OF le_add1])
  qed
  then show ?thesis by (simp only: calculateComplexity_def)
qed

lemma analyzeFile_metrics:
  assumes "analyzeFile babel root file st0 = Inr st"
  shows "m_totalLinesOfCode (metrics st) =
           m_totalLinesOfCode (metrics st0) +
             (if isSourceFile (f_path file) then linesOfCodeOr0 (analysisOf babel root file) else 0)"
    and "m_totalComplexity (metrics st) =
           m_totalComplexity (metrics st0) +
             (if isSourceFile (f_path file) then a_complexity (analysisOf babel root file) else 0)"
  using assms
  by (auto simp: analyzeFile_def Let_def addAnalysis_def analysisOf_def linesOfCodeOr0_def
           split: if_splits sum.splits)

lemma analyzeFiles_lines:
  "analyzeFiles babel root files st0 = Inr st \<Longrightarrow>
   m_totalLinesOfCode (metrics st) =
     m_totalLinesOfCode (metrics st0) +
       sum_list (map (\<lambda>f. linesOfCodeOr0 (analysisOf babel root f)) (sourceFiles files))"
proof (induction files arbitrary: st0)
  case Nil
  then show ?case by (simp add: sourceFiles_def)
next
  case (Cons f fs)
  from Cons.prems obtain st1 where
    step: "analyzeFile babel root f st0 = Inr st1" and
    rest: "analyzeFiles babel root fs st1 = Inr st"
    by (auto split: sum.splits)
  show ?case
    using Cons.IH [OF rest] analyzeFile_metrics(1) [OF step]
    by (simp add: sourceFiles_def)
qed

lemma analyzeFiles_complexity:
  "analyzeFiles babel root files st0 = Inr st \<Longrightarrow>
   m_totalComplexity (metrics st) =
     m_totalComplexity (metrics st0) +
       sum_list (map (\<lambda>f. a_complexity (analysisOf babel root f)) (sourceFiles files))"
proof (induction files arbitrary: st0)
  case Nil
  then show ?case by (simp add: sourceFiles_def)
next
  case (Cons f fs)
  from Cons.prems obtain st1 where
    step: "analyzeFile babel root f st0 = Inr st1" and
    rest: "analyzeFiles babel root fs st1 = Inr st"
    by (auto split: sum.splits)
  show ?case
    using Cons.IH [OF rest] analyzeFile_metrics(2) [OF step]
    by (simp add: sourceFiles_def)
qed

lemma sum_list_filter_zero:
  "(\<And>x. x \<in> set xs \<Longrightarrow> \<not> P x \<Longrightarrow> g x = (0::nat)) \<Longrightarrow>
   sum_list (map g xs) = sum_list (map g (filter P xs))"
  by (induction xs) auto

lemma length_le_sum_list:
  "(\<And>x. x \<in> set xs \<Longrightarrow> (1::nat) \<le> g x) \<Longrightarrow> length xs \<le> sum_list (map g xs)"
  by (induction xs) fastforce+

lemma sum_list_filter_le:
  "sum_list (map g (filter P xs)) \<le> sum_list (map (g :: 'a \<Rightarrow> nat) xs)"
  by (induction xs) auto

subsection \<open>Lines of code\<close>

text \<open>
  C4. When the loop over the inventory completes, \<open>totalLinesOfCode\<close> is the sum of
  \<open>linesOfCode\<close> over the results of the source files that carry no error (each of them
  has the field), and it is 0 when the inventory has no source file.
\<close>

theorem totalLinesOfCode_sum:
  assumes "analyzeFiles babel root files initialState = Inr st"
  shows "m_totalLinesOfCode (metrics st) =
           sum_list (map linesOfCodeOr0
             (filter succeeded (map (analysisOf babel root) (sourceFiles files))))
       \<and> (\<forall>a\<in>set (filter succeeded (map (analysisOf babel root) (sourceFiles files))).
             a_linesOfCode a \<noteq> None)
       \<and> (sourceFiles files = [] \<longrightarrow> m_totalLinesOfCode (metrics st) = 0)"
proof -
  let ?as = "map (analysisOf babel root) (sourceFiles files)"
  have total: "m_totalLinesOfCode (metrics st) = sum_list (map linesOfCodeOr0 ?as)"
    using analyzeFiles_lines [OF assms] by (simp add: initialState_def comp_def)
  have zero: "\<And>a. a \<in> set ?as \<Longrightarrow> \<not> succeeded a \<Longrightarrow> linesOfCodeOr0 a = 0"
    using analysis_error_lines
    by (auto simp: succeeded_def analysisOf_def linesOfCodeOr0_def)
  have present: "\<And>a. a \<in> set ?as \<Longrightarrow> succeeded a \<Longrightarrow> a_linesOfCode a \<noteq> None"
  proof -
    fix a assume "a \<in> set ?as" "succeeded a"
    then obtain p where "a = analyzeJavaScriptFile babel root p" "a_error a = None"
      by (auto simp: analysisOf_def succeeded_def)
    then obtain content where "a = analyzeText content"
      using analysis_no_error by metis
    then show "a_linesOfCode a \<noteq> None" by (simp add: analyzeText_def)
  qed
  from total sum_list_filter_zero [of ?as succeeded linesOfCodeOr0, OF zero]
  have "m_totalLinesOfCode (metrics st) = sum_list (map linesOfCodeOr0 (filter succeeded ?as))"
    by simp
  moreover have "sourceFiles files = [] \<longrightarrow> m_totalLinesOfCode (metrics st) = 0"
    using total by simp
  ultimately show ?thesis using present by simp
qed

theorem totalLinesOfCode_sum_witness:
  "analyzeFiles exampleParser exampleTree exampleFiles initialState = Inr exampleState
   \<and> map a_linesOfCode
         (filter succeeded (map (analysisOf exampleParser exampleTree) (sourceFiles exampleFiles)))
       = [Some 2]
   \<and> m_totalLinesOfCode (metrics exampleState) = 2"
  using totalLinesOfCode_sum [OF example_loop] example_loop example_analyses
  by (simp add: exampleState_def succeeded_def)

subsection \<open>Complexity\<close>

text \<open>
  C10. The result of a source file that carries no error has a complexity of 1 at least,
  and so, when the loop over the inventory completes, \<open>totalComplexity\<close> is at least the
  number of source files analysed without error.
\<close>

theorem totalComplexity_at_least_count:
  assumes "analyzeFiles babel root files initialState = Inr st"
  shows "(\<forall>a\<in>set (map (analysisOf babel root) (sourceFiles files)). succeeded a \<longrightarrow> 1 \<le> a_complexity a)
       \<and> length (filter succeeded (map (analysisOf babel root) (sourceFiles files)))
            \<le> m_totalComplexity (metrics st)"
proof -
  let ?as = "map (analysisOf babel root) (sourceFiles files)"
  have total: "m_totalComplexity (metrics st) = sum_list (map a_complexity ?as)"
    using analyzeFiles_complexity [OF assms] by (simp add: initialState_def comp_def)
  have pos: "\<And>a. a \<in> set ?as \<Longrightarrow> succeeded a \<Longrightarrow> 1 \<le> a_complexity a"
  proof -
    fix a assume "a \<in> set ?as" "succeeded a"
    then obtain p where "a = analyzeJavaScriptFile babel root p" "a_error a = None"
      by (auto simp: analysisOf_def succeeded_def)
    then obtain content where "a = analyzeText content"
      using analysis_no_error by metis
    then show "1 \<le> a_complexity a" using calculateComplexity_pos by (simp add: analyzeText_def)
  qed
  have "length (filter succeeded ?as) \<le> sum_list (map a_complexity (filter succeeded ?as))"
    using pos by (intro length_le_sum_list) auto
  also have "\<dots> \<le> sum_list (map a_complexity ?as)"
    by (rule sum_list_filter_le)
  finally show ?thesis using pos total by simp
qed

theorem totalComplexity_at_least_count_witness:
  "analyzeFiles exampleParser exampleTree exampleFiles initialState = Inr exampleState
   \<and> length (filter succeeded
               (map (analysisOf exampleParser exampleTree) (sourceFiles exampleFiles))) = 1
   \<and> m_totalComplexity (metrics exampleState) = 42"
  using totalComplexity_at_least_count [OF example_loop] example_loop example_analyses
  by (simp add: exampleState_def succeeded_def)

subsection \<open>The dependency map\<close>

lemma map_of_setProp: "map_of (setProp k v ps) = (map_of ps)(k \<mapsto> v)"
  by (induction ps) (auto simp: fun_eq_iff)

lemma set_setProp: "set (setProp k v ps) \<subseteq> insert (k, v) (set ps)"
  by (induction ps) (auto split: if_splits)

lemma listAt_pushInternal:
  "map_of (pushInternal file imp internal) = (map_of internal)(file \<mapsto> listAt internal file @ [imp])"
  by (simp add: pushInternal_def listAt_def map_of_setProp split: option.splits)

lemma allRelative_pushInternal:
  assumes "allRelative internal" and "startsWith imp ''.''"
  shows "allRelative (pushInternal file imp internal)"
proof -
  have old: "\<forall>i\<in>set (listAt internal file). startsWith i ''.''"
  proof (cases "map_of internal file")
    case None
    then show ?thesis by (simp add: listAt_def)
  next
    case (Some imps)
    then have "(file, imps) \<in> set internal" by (rule map_of_SomeD)
    then show ?thesis using assms(1) Some by (auto simp: listAt_def allRelative_def)
  qed
  have "set (pushInternal file imp internal) \<subseteq> insert (file, listAt internal file @ [imp]) (set internal)"
    using set_setProp [where k = "file" and ps = internal]
    by (auto simp: pushInternal_def listAt_def split: option.splits)
  then show ?thesis
    using assms old unfolding allRelative_def by fastforce
qed

lemma recordImport_external:
  "d_external (foldl (recordImport file) dm imps) =
     foldl addToSet (d_external dm) (filter (\<lambda>imp. \<not> startsWith imp ''.'') imps)"
  by (induction imps arbitrary: dm) (simp_all add: recordImport_def)

lemma recordImport_internal:
  "map_of (d_internal (foldl (recordImport file) dm imps)) =
     (if filter (\<lambda>imp. startsWith imp ''.'') imps = [] then map_of (d_internal dm)
      else (map_of (d_internal dm))
             (file \<mapsto> listAt (d_internal dm) file @ filter (\<lambda>imp. startsWith imp ''.'') imps))"
proof (induction imps arbitrary: dm)
  case Nil
  then show ?case by simp
next
  case (Cons imp imps)
  show ?case
  proof (cases "startsWith imp ''.''")
    case True
    let ?dm = "dm\<lparr>d_internal := pushInternal file imp (d_internal dm)\<rparr>"
    have step: "foldl (recordImport file) dm (imp # imps) = foldl (recordImport file) ?dm imps"
      using True by (simp add: recordImport_def)
    have at: "listAt (d_internal ?dm) file = listAt (d_internal dm) file @ [imp]"
      by (simp add: listAt_def [of "pushInternal file imp (d_internal dm)"] listAt_pushInternal)
    show ?thesis
      unfolding step Cons.IH [of ?dm] at
      using True by (auto simp: listAt_pushInternal fun_eq_iff)
  next
    case False
    then show ?thesis
      using Cons.IH [of "dm\<lparr>d_external := addToSet (d_external dm) imp\<rparr>"]
      by (simp add: recordImport_def)
  qed
qed

lemma recordImport_allRelative:
  "allRelative (d_internal dm) \<Longrightarrow> allRelative (d_internal (foldl (recordImport file) dm imps))"
  by (induction imps arbitrary: dm) (simp_all add: recordImport_def allRelative_pushInternal)

lemma analyzeFile_dependencyMap:
  assumes "analyzeFile babel root f st0 = Inr st"
  shows "dependencyMap st =
           (if isSourceFile (f_path f)
            then foldl (recordImport (f_relativePath f)) (dependencyMap st0)
                   (a_imports (analysisOf babel root f))
            else dependencyMap st0)"
  using assms
  by (auto simp: analyzeFile_def Let_def analysisOf_def split: if_splits sum.splits)

lemma analyzeFiles_external:
  "analyzeFiles babel root files st0 = Inr st \<Longrightarrow>
   d_external (dependencyMap st) =
     foldl addToSet (d_external (dependencyMap st0))
       (concat (map (\<lambda>f. packageImports (analysisOf babel root f)) (sourceFiles files)))"
proof (induction files arbitrary: st0)
  case Nil
  then show ?case by (simp add: sourceFiles_def)
next
  case (Cons f fs)
  from Cons.prems obtain st1 where
    step: "analyzeFile babel root f st0 = Inr st1" and
    rest: "analyzeFiles babel root fs st1 = Inr st"
    by (auto split: sum.splits)
  show ?case
    using Cons.IH [OF rest] analyzeFile_dependencyMap [OF step]
    by (simp add: sourceFiles_def recordImport_external packageImports_def)
qed

lemma analyzeFiles_allRelative:
  "analyzeFiles babel root files st0 = Inr st \<Longrightarrow> allRelative (d_internal (dependencyMap st0)) \<Longrightarrow>
   allRelative (d_internal (dependencyMap st))"
proof (induction files arbitrary: st0)
  case Nil
  then show ?case by simp
next
  case (Cons f fs)
  from Cons.prems obtain st1 where
    step: "analyzeFile babel root f st0 = Inr st1" and
    rest: "analyzeFiles babel root fs st1 = Inr st"
    by (auto split: sum.splits)
  have "allRelative (d_internal (dependencyMap st1))"
    using analyzeFile_dependencyMap [OF step] Cons.prems(2)
    by (simp add: recordImport_allRelative)
  then show ?case by (rule Cons.IH [OF rest])
qed

lemma analyzeFiles_internal:
  "analyzeFiles babel root files st0 = Inr st \<Longrightarrow>
   map_of (d_internal (dependencyMap st)) r =
     (if importsUnder babel root files r = [] then map_of (d_internal (dependencyMap st0)) r
      else Some (listAt (d_internal (dependencyMap st0)) r @ importsUnder babel root files r))"
proof (induction files arbitrary: st0)
  case Nil
  then show ?case by (simp add: importsUnder_def sourceFiles_def)
next
  case (Cons f fs)
  from Cons.prems obtain st1 where
    step: "analyzeFile babel root f st0 = Inr st1" and
    rest: "analyzeFiles babel root fs st1 = Inr st"
    by (auto split: sum.splits)
  let ?new = "if isSourceFile (f_path f) \<and> f_relativePath f = r
              then relativeImports (analysisOf babel root f) else []"
  have unfold: "importsUnder babel root (f # fs) r = ?new @ importsUnder babel root fs r"
    by (simp add: importsUnder_def sourceFiles_def)
  have one: "map_of (d_internal (dependencyMap st1)) r =
               (if ?new = [] then map_of (d_internal (dependencyMap st0)) r
                else Some (listAt (d_internal (dependencyMap st0)) r @ ?new))"
    using analyzeFile_dependencyMap [OF step]
    by (simp add: recordImport_internal relativeImports_def)
  have at: "listAt (d_internal (dependencyMap st1)) r = listAt (d_internal (dependencyMap st0)) r @ ?new"
    using one by (simp add: listAt_def split: if_splits)
  show ?case
    unfolding Cons.IH [OF rest] unfold at one by simp
qed

lemma filter_same_key:
  "distinct (map h xs) \<Longrightarrow> x \<in> set xs \<Longrightarrow> filter (\<lambda>y. h y = h x) xs = [x]"
proof (induction xs)
  case Nil
  then show ?case by simp
next
  case (Cons y ys)
  show ?case
  proof (cases "y = x")
    case True
    have "h x \<notin> h ` set ys"
      using Cons.prems(1) True by simp
    then have "filter (\<lambda>z. h z = h x) ys = []"
      unfolding filter_empty_conv by (metis imageI)
    then show ?thesis using True by simp
  next
    case False
    then have "x \<in> set ys" using Cons.prems(2) by simp
    then have "h y \<noteq> h x" using Cons.prems(1) by auto
    then show ?thesis using Cons.IH Cons.prems(1) \<open>x \<in> set ys\<close> by simp
  qed
qed

lemma foldl_addToSet: "foldl addToSet [] xs = firstOccurrences xs"
proof (induction xs rule: rev_induct)
  case Nil
  then show ?case by (simp add: firstOccurrences_def)
next
  case (snoc x xs)
  have "set (firstOccurrences xs) = set xs" by (simp add: firstOccurrences_def)
  then show ?case
    using snoc by (simp add: addToSet_def) (simp add: firstOccurrences_def)
qed

text \<open>
  C3. When the loop over an inventory with distinct relative paths completes: for every
  source file, the specifiers of the file that begin with a dot stand under the relative
  path of the file in the internal mapping, in extraction order (and the file has no key
  when it has none); no other key exists; the external list holds the other specifiers of
  all source files, each once, at the place of its first occurrence; no external
  specifier begins with a dot, and every specifier of the internal mapping does.
\<close>

theorem dependencyMap_classifies_imports:
  assumes "analyzeFiles babel root files initialState = Inr st"
    and "distinct (map f_relativePath files)"
  shows "(\<forall>f\<in>set (sourceFiles files).
            map_of (d_internal (dependencyMap st)) (f_relativePath f) =
              (if relativeImports (analysisOf babel root f) = [] then None
               else Some (relativeImports (analysisOf babel root f))))
       \<and> (\<forall>r. r \<notin> f_relativePath ` set (sourceFiles files) \<longrightarrow>
                map_of (d_internal (dependencyMap st)) r = None)
       \<and> d_external (dependencyMap st) =
           firstOccurrences
             (concat (map (\<lambda>f. packageImports (analysisOf babel root f)) (sourceFiles files)))
       \<and> distinct (d_external (dependencyMap st))
       \<and> (\<forall>e\<in>set (d_external (dependencyMap st)). \<not> startsWith e ''.'')
       \<and> (\<forall>(file, imps)\<in>set (d_internal (dependencyMap st)). \<forall>imp\<in>set imps. startsWith imp ''.'')"
proof -
  have internal: "\<And>r. map_of (d_internal (dependencyMap st)) r =
      (if importsUnder babel root files r = [] then None else Some (importsUnder babel root files r))"
    using analyzeFiles_internal [OF assms(1)] by (simp add: initialState_def listAt_def)
  have own: "\<And>f. f \<in> set (sourceFiles files) \<Longrightarrow>
      importsUnder babel root files (f_relativePath f) = relativeImports (analysisOf babel root f)"
  proof -
    fix f assume f: "f \<in> set (sourceFiles files)"
    have "distinct (map f_relativePath (sourceFiles files))"
      using assms(2) by (simp add: sourceFiles_def distinct_map_filter)
    from filter_same_key [OF this f] show
      "importsUnder babel root files (f_relativePath f) = relativeImports (analysisOf babel root f)"
      by (simp add: importsUnder_def)
  qed
  have other: "\<And>r. r \<notin> f_relativePath ` set (sourceFiles files) \<Longrightarrow> importsUnder babel root files r = []"
    by (auto simp: importsUnder_def filter_empty_conv)
  have external: "d_external (dependencyMap st) =
      firstOccurrences (concat (map (\<lambda>f. packageImports (analysisOf babel root f)) (sourceFiles files)))"
    using analyzeFiles_external [OF assms(1)] by (simp add: initialState_def foldl_addToSet)
  have dist: "distinct (d_external (dependencyMap st))"
    unfolding external by (simp add: firstOccurrences_def)
  have nodot: "\<forall>e\<in>set (d_external (dependencyMap st)). \<not> startsWith e ''.''"
    unfolding external by (auto simp: firstOccurrences_def packageImports_def)
  have "allRelative (d_internal (dependencyMap st))"
    using analyzeFiles_allRelative [OF assms(1)] by (simp add: initialState_def allRelative_def)
  then have dots: "\<forall>(file, imps)\<in>set (d_internal (dependencyMap st)). \<forall>imp\<in>set imps. startsWith imp ''.''"
    by (simp add: allRelative_def)
  show ?thesis
    using internal own other external dist nodot dots by simp
qed

theorem dependencyMap_classifies_imports_witness:
  "analyzeFiles exampleParser exampleTree exampleFiles initialState = Inr exampleState
   \<and> distinct (map f_relativePath exampleFiles)
   \<and> map_of (d_internal (dependencyMap exampleState)) ''a.js'' = Some [''./b'']
   \<and> map_of (d_internal (dependencyMap exampleState)) ''b.js'' = None
   \<and> d_external (dependencyMap exampleState) = [''a.js'']"
  using dependencyMap_classifies_imports [OF example_loop example_distinct]
    example_loop example_distinct
  by (simp add: exampleState_def)

text \<open>
  C6, as the code has it. The claim reads: no external specifier is a key of the internal
  mapping. The keys are relative paths of files and the external specifiers are the
  specifiers that do not begin with a dot, and nothing in the loop keeps them apart: in
  the example project the file \<open>a.js\<close> imports the package \<open>a.js\<close> and the module
  \<open>./b\<close>, so \<open>a.js\<close> is an external specifier and a key.
\<close>

theorem external_contains_internal_key:
  "map_of (r_written (runAnalysis examplePlatform ''proj'' (Some exampleTree) exampleOptions))
       DEPENDENCY_MAP_FILE
     = Some (DependencyDoc \<lparr>d_internal = [(''a.js'', [''./b''])], d_external = [''a.js'']\<rparr>)"
  by code_simp

text \<open>
  C6, amended. When the loop over the inventory completes, no external specifier occurs
  in any of the specifier lists of the internal mapping.
\<close>

theorem external_apart_from_internal_specifiers:
  assumes "analyzeFiles babel root files initialState = Inr st"
  shows "\<forall>e\<in>set (d_external (dependencyMap st)).
           \<forall>(file, imps)\<in>set (d_internal (dependencyMap st)). e \<notin> set imps"
proof -
  have "d_external (dependencyMap st) =
      firstOccurrences (concat (map (\<lambda>f. packageImports (analysisOf babel root f)) (sourceFiles files)))"
    using analyzeFiles_external [OF assms(1)] by (simp add: initialState_def foldl_addToSet)
  then have nodot: "\<forall>e\<in>set (d_external (dependencyMap st)). \<not> startsWith e ''.''"
    by (auto simp: firstOccurrences_def packageImports_def)
  have "allRelative (d_internal (dependencyMap st))"
    using analyzeFiles_allRelative [OF assms(1)] by (simp add: initialState_def allRelative_def)
  with nodot show ?thesis
    unfolding allRelative_def by fastforce
qed

theorem external_apart_from_internal_specifiers_witness:
  "analyzeFiles exampleParser exampleTree exampleFiles initialState = Inr exampleState
   \<and> ''a.js'' \<in> set (d_external (dependencyMap exampleState))
   \<and> ''a.js'' \<notin> set (listAt (d_internal (dependencyMap exampleState)) ''a.js'')"
  using external_apart_from_internal_specifiers [OF example_loop] example_loop
  by (simp add: exampleState_def listAt_def)

section \<open>The task backlog\<close>

lemma taskIdentifier_1: "taskIdentifier (Suc 0) = ''T-001''"
  by code_simp

lemma taskIdentifier_2: "taskIdentifier (Suc (Suc 0)) = ''T-002''"
  by code_simp

lemma highComplexityFiles_distinct:
  assumes "distinct (map fst files)"
  shows "highComplexityFiles files = map fst (filter (\<lambda>(f, a). 20 < a_complexity a) files)"
proof -
  have "\<And>f a. (f, a) \<in> set files \<Longrightarrow> map_of files f = Some a"
    using assms by simp
  then have "filter ((\<lambda>f. case map_of files f of None \<Rightarrow> False
                         | Some a \<Rightarrow> a_complexity a \<noteq> 0 \<and> 20 < a_complexity a) \<circ> fst) files
             = filter (\<lambda>(f, a). 20 < a_complexity a) files"
    by (intro filter_cong) auto
  then show ?thesis
    by (simp add: highComplexityFiles_def filter_map)
qed

text \<open>
  C8. The backlog generated from a context document (whose \<open>files\<close> object has each key
  once) holds: first the task "Add Testing Framework Setup", of priority high, with the
  source files \<open>package.json\<close>, exactly when the summary's \<open>hasTests\<close> is false; then the
  task "Refactor High Complexity Functions", of priority medium, with the source files
  whose complexity exceeds 20 in the order of the \<open>files\<close> object, exactly when the
  summary's complexity exceeds 100. The identifiers of the tasks are \<open>T-001\<close>,
  \<open>T-002\<close> in this order, and \<open>totalTasks\<close> is the number of tasks.
\<close>

theorem generateTaskBacklog_rules:
  assumes "distinct (map fst (c_files ctx))"
  shows "map (\<lambda>t. (t_title t, t_priority t, t_sourceFiles t))
             (b_tasks (generateTaskBacklog generated ctx)) =
           (if s_hasTests (c_summary ctx) then []
            else [(''Add Testing Framework Setup'', ''high'', [''package.json''])]) @
           (if 100 < s_complexity (c_summary ctx)
            then [(''Refactor High Complexity Functions'', ''medium'',
                   map fst (filter (\<lambda>(f, a). 20 < a_complexity a) (c_files ctx)))]
            else [])
         \<and> map t_id (b_tasks (generateTaskBacklog generated ctx)) =
             take (length (b_tasks (generateTaskBacklog generated ctx))) [''T-001'', ''T-002'']
         \<and> b_totalTasks (generateTaskBacklog generated ctx) =
             length (b_tasks (generateTaskBacklog generated ctx))"
  using highComplexityFiles_distinct [OF assms]
  by (simp add: generateTaskBacklog_def Let_def testingTask_def refactorTask_def
        taskIdentifier_1 taskIdentifier_2)

theorem generateTaskBacklog_rules_witness:
  "map (\<lambda>t. (t_id t, t_title t, t_priority t, t_sourceFiles t))
       (b_tasks (generateTaskBacklog ''now'' exampleContext)) =
     [(''T-001'', ''Add Testing Framework Setup'', ''high'', [''package.json'']),
      (''T-002'', ''Refactor High Complexity Functions'', ''medium'', [''a.js''])]"
  using generateTaskBacklog_rules [of exampleContext "''now''"]
  by (simp add: exampleContext_def generateTaskBacklog_def Let_def zip_map_map)

section \<open>Selecting a task\<close>

lemma findTask_None:
  "findTask tasks taskId = None \<longleftrightarrow>
     \<not> (\<exists>t\<in>set tasks. toLowerCase (t_id t) = toLowerCase taskId)"
  by (auto simp: findTask_def find_None_iff)

lemma findTask_Some:
  "findTask tasks taskId = Some t \<Longrightarrow> t \<in> set tasks \<and> toLowerCase (t_id t) = toLowerCase taskId"
  by (auto simp: findTask_def find_Some_iff)

text \<open>
  C9. With a task identifier given to the work command, a task is selected (and its
  prompt written) exactly when the identifier of some task of the backlog equals the
  argument once both are put in lower case, and the selected task is such a task; the
  command ends with "task not found" only when no identifier matches, and it does so
  whenever none matches. The command takes an empty argument for no argument: the
  statement is for a non-empty argument, and for every argument when no task of the
  backlog has the empty identifier.
\<close>

theorem runWork_selects_case_insensitively:
  assumes "taskId \<noteq> [] \<or> (\<forall>t\<in>set (b_tasks backlog). t_id t \<noteq> [])"
  shows "((\<exists>t text. runWork (Some backlog) contextFile sourceText (Some taskId) = PromptWritten t text)
            \<longleftrightarrow> (\<exists>t\<in>set (b_tasks backlog). toLowerCase (t_id t) = toLowerCase taskId))
       \<and> (\<forall>t text. runWork (Some backlog) contextFile sourceText (Some taskId) = PromptWritten t text
            \<longrightarrow> t \<in> set (b_tasks backlog) \<and> toLowerCase (t_id t) = toLowerCase taskId)
       \<and> (runWork (Some backlog) contextFile sourceText (Some taskId) = TaskNotFound
            \<longrightarrow> \<not> (\<exists>t\<in>set (b_tasks backlog). toLowerCase (t_id t) = toLowerCase taskId))
       \<and> (taskId \<noteq> [] \<and> \<not> (\<exists>t\<in>set (b_tasks backlog). toLowerCase (t_id t) = toLowerCase taskId)
            \<longrightarrow> runWork (Some backlog) contextFile sourceText (Some taskId) = TaskNotFound)"
proof (cases "taskId = []")
  case True
  with assms have "\<forall>t\<in>set (b_tasks backlog). t_id t \<noteq> []" by simp
  then have "\<not> (\<exists>t\<in>set (b_tasks backlog). toLowerCase (t_id t) = toLowerCase taskId)"
    using True by (simp add: toLowerCase_def)
  moreover have "runWork (Some backlog) contextFile sourceText (Some taskId) = listPending backlog"
    using True by (simp add: runWork_def)
  moreover have "\<And>t text. listPending backlog \<noteq> PromptWritten t text"
    "listPending backlog \<noteq> TaskNotFound"
    by (simp_all add: listPending_def Let_def)
  ultimately show ?thesis using True by simp
next
  case False
  show ?thesis
  proof (cases "findTask (b_tasks backlog) taskId")
    case None
    then have "runWork (Some backlog) contextFile sourceText (Some taskId) = TaskNotFound"
      using False by (simp add: runWork_def)
    then show ?thesis using None by (simp add: findTask_None)
  next
    case (Some t)
    then have "runWork (Some backlog) contextFile sourceText (Some taskId) =
                 PromptWritten t (composePrompt contextFile sourceText t)"
      using False by (simp add: runWork_def)
    then show ?thesis using findTask_Some [OF Some] by auto
  qed
qed

theorem runWork_selects_case_insensitively_witness:
  "(\<exists>text. runWork (Some exampleBacklog) None (\<lambda>file. None) (Some ''t-001'')
             = PromptWritten (testingTask 1) text)
   \<and> runWork (Some exampleBacklog) None (\<lambda>file. None) (Some ''T-999'') = TaskNotFound"
proof -
  have tasks: "b_tasks exampleBacklog =
      [testingTask (Suc 0), refactorTask (Suc (Suc 0)) (c_files exampleContext)]"
    by (simp add: exampleBacklog_def generateTaskBacklog_def exampleContext_def Let_def)
  have ids: "map t_id (b_tasks exampleBacklog) = [''T-001'', ''T-002'']"
    unfolding tasks by (simp add: testingTask_def refactorTask_def taskIdentifier_1 taskIdentifier_2)
  have lower: "map toLowerCase [''T-001'', ''T-002'', ''t-001'', ''T-999'']
                 = [''t-001'', ''t-002'', ''t-001'', ''t-999'']"
    by code_simp
  have given: "''T-999'' \<noteq> [] \<or> (\<forall>t\<in>set (b_tasks exampleBacklog). t_id t \<noteq> [])"
    by simp
  have none: "\<not> (\<exists>t\<in>set (b_tasks exampleBacklog). toLowerCase (t_id t) = toLowerCase ''T-999'')"
    using ids lower by (auto simp: tasks)
  have notFound: "runWork (Some exampleBacklog) None (\<lambda>file. None) (Some ''T-999'') = TaskNotFound"
    using runWork_selects_case_insensitively [OF given, of None "\<lambda>file. None"] none by blast
  have "findTask (b_tasks exampleBacklog) ''t-001'' = Some (testingTask (Suc 0))"
    using ids lower by (simp add: findTask_def tasks)
  then have "runWork (Some exampleBacklog) None (\<lambda>file. None) (Some ''t-001'')
             = PromptWritten (testingTask 1) (composePrompt None (\<lambda>file. None) (testingTask 1))"
    by (simp add: runWork_def)
  with notFound show ?thesis by simp
qed

end
